theory Spec2Isabelle
  imports Complex_Main "HOL-Library.Sublist"
begin

section \<open>The Proxmox REST client\<close>

text \<open>
  A shallow embedding of the class \<open>ProxmoxClient\<close>: its constructor, its ten public
  operations and the private helpers \<open>normalizeStatus\<close>, \<open>normalizeVmStatus\<close>,
  \<open>mapVm\<close>, \<open>normalizedBaseUrl\<close> and \<open>requestJson\<close>.

  Conventions of the embedding.
  \<^item> A JavaScript string is a HOL \<open>string\<close>; a character stands for the code point of
    the same number, so the strings covered are those over U+0000 .. U+00FF.
  \<^item> A JavaScript number that carries an id, a time or a size is an \<open>int\<close>; the cpu load
    is a \<open>real\<close>. No arithmetic is done on them except the comparator of the sort. Where
    such a number is printed, its decimal digits are used only if it is a safe integer.
  \<^item> An optional field (\<open>name?: string\<close>) is an \<open>option\<close>; \<open>x ?? d\<close> is a case
    distinction on it, and \<open>s || d\<close> on a string tests \<open>s\<close> for emptiness.
  \<^item> A rejected promise or a thrown exception is the left summand of the result.
  \<^item> Every call of the transport's \<open>request\<close> function is recorded: an operation returns
    its result together with the list of requests it has issued.
\<close>

subsection \<open>Strings and numbers of the host language\<close>

text \<open>White space as \<open>String.prototype.trim\<close> sees it, among the code points below 256.\<close>

definition is_white_space :: "char \<Rightarrow> bool" where
  "is_white_space ch \<longleftrightarrow>
     ch \<in> {CHR 0x09, CHR 0x0A, CHR 0x0B, CHR 0x0C, CHR 0x0D, CHR 0x20, CHR 0xA0}"

definition trim :: "string \<Rightarrow> string" where
  "trim s = rev (dropWhile is_white_space (rev (dropWhile is_white_space s)))"

definition endsWith :: "string \<Rightarrow> string \<Rightarrow> bool" where
  "endsWith s t \<longleftrightarrow> suffix t s"

definition digit_char :: "nat \<Rightarrow> char" where
  "digit_char d = ''0123456789ABCDEF'' ! d"

text \<open>
  The decimal digits of a natural number and of an integer. This is how the language
  prints a number (in a template literal, by \<open>toString\<close>) as long as the number is a
  safe integer, that is of magnitude below \<open>2^53\<close>; \<open>number_text\<close> below covers the rest.
  The one number printed with \<open>show_nat\<close> itself is the length of a payload in bytes,
  which is far below that bound for any string the language can hold.
\<close>

fun show_nat :: "nat \<Rightarrow> string" where
  "show_nat n = (if n < 10 then [digit_char n] else show_nat (n div 10) @ [digit_char (n mod 10)])"

declare show_nat.simps [simp del]

definition show_int :: "int \<Rightarrow> string" where
  "show_int i = (if i < 0 then CHR ''-'' # show_nat (nat (- i)) else show_nat (nat i))"

text \<open>The UTF-8 bytes of a code point below 256, and the two-digit upper-case escape of a byte.\<close>

definition utf8_bytes :: "char \<Rightarrow> nat list" where
  "utf8_bytes ch =
     (let n = (of_char ch :: nat)
      in if n < 128 then [n] else [192 + n div 64, 128 + n mod 64])"

definition percent_byte :: "nat \<Rightarrow> string" where
  "percent_byte b = [CHR ''%'', digit_char (b div 16), digit_char (b mod 16)]"

definition byteLength :: "string \<Rightarrow> nat" where
  "byteLength s = length (concat (map utf8_bytes s))"

definition is_alnum :: "char \<Rightarrow> bool" where
  "is_alnum ch \<longleftrightarrow>
     ch \<in> set ''ABCDEFGHIJKLMNOPQRSTUVWXYZabcdefghijklmnopqrstuvwxyz0123456789''"

text \<open>\<open>encodeURIComponent\<close>: everything is escaped but letters, digits and \<open>- _ . ! ~ * ' ( )\<close>.\<close>

definition uri_unreserved :: "char \<Rightarrow> bool" where
  "uri_unreserved ch \<longleftrightarrow> is_alnum ch \<or> ch \<in> set ''-_.!~*()'' \<or> ch = CHR 0x27"

definition encodeURIComponent :: "string \<Rightarrow> string" where
  "encodeURIComponent s =
     concat (map (\<lambda>ch. if uri_unreserved ch then [ch]
                        else concat (map percent_byte (utf8_bytes ch))) s)"

text \<open>
  \<open>new URLSearchParams(entries).toString()\<close>: the form-urlencoded serialisation, which
  keeps letters, digits and \<open>* - . _\<close>, turns a space into \<open>+\<close> and escapes the rest.
\<close>

definition form_component :: "string \<Rightarrow> string" where
  "form_component s =
     concat (map (\<lambda>ch. if is_alnum ch \<or> ch \<in> set ''*-._'' then [ch]
                        else if ch = CHR '' '' then ''+''
                        else concat (map percent_byte (utf8_bytes ch))) s)"

fun join_amp :: "string list \<Rightarrow> string" where
  "join_amp [] = []"
| "join_amp [x] = x"
| "join_amp (x # y # ys) = x @ ''&'' @ join_amp (y # ys)"

definition URLSearchParams_toString :: "(string \<times> string) list \<Rightarrow> string" where
  "URLSearchParams_toString entries =
     join_amp (map (\<lambda>(k, v). form_component k @ ''='' @ form_component v) entries)"

text \<open>
  \<open>Array.prototype.sort\<close> with a comparator. The language guarantees a stable sort, and
  for a comparator that is a total preorder the stable sorted arrangement is unique;
  the insertion sort below computes it.
\<close>

fun insert_sorted :: "('a \<Rightarrow> 'a \<Rightarrow> int) \<Rightarrow> 'a \<Rightarrow> 'a list \<Rightarrow> 'a list" where
  "insert_sorted cmp x [] = [x]"
| "insert_sorted cmp x (y # ys) =
     (if cmp x y \<le> 0 then x # y # ys else y # insert_sorted cmp x ys)"

fun array_sort :: "('a \<Rightarrow> 'a \<Rightarrow> int) \<Rightarrow> 'a list \<Rightarrow> 'a list" where
  "array_sort cmp [] = []"
| "array_sort cmp (x # xs) = insert_sorted cmp x (array_sort cmp xs)"

subsection \<open>Data model\<close>

datatype node_status = Online | Offline | UnknownNode

record ProxmoxNode =
  node_name :: string
  node_status :: node_status

datatype vm_status = Running | Stopped | UnknownVm

datatype vm_type = Qemu | Lxc

fun type_text :: "vm_type \<Rightarrow> string" where
  "type_text Qemu = ''qemu''"
| "type_text Lxc = ''lxc''"

record ProxmoxVm =
  vm_id :: int
  vm_name :: string
  vm_status :: vm_status
  vm_type :: vm_type
  vm_node :: string

record ProxmoxVmDetails =
  det_id :: int
  det_name :: string
  det_status :: string
  det_uptime :: int
  det_cpu :: real
  det_mem :: int
  det_maxMem :: int
  det_node :: string
  det_type :: vm_type

record ProxmoxSnapshot =
  snap_name :: string
  snap_createdAt :: "int option"

record ProxmoxClientConfig =
  cfg_host :: string
  cfg_apiToken :: string
  cfg_allowInsecure :: "bool option"

record ProxmoxClient =
  host :: string
  apiToken :: string
  allowInsecure :: bool

text \<open>The constructor; \<open>Boolean(undefined)\<close> is \<open>false\<close>.\<close>

definition new_ProxmoxClient :: "ProxmoxClientConfig \<Rightarrow> ProxmoxClient" where
  "new_ProxmoxClient config =
     \<lparr> host = trim (cfg_host config),
       apiToken = trim (cfg_apiToken config),
       allowInsecure = (case cfg_allowInsecure config of None \<Rightarrow> False | Some b \<Rightarrow> b) \<rparr>"

subsection \<open>Remote payloads\<close>

text \<open>The entries of the \<open>data\<close> arrays, with the fields the client declares for them.\<close>

record node_entry =
  ne_node :: "string option"
  ne_status :: "string option"

record vm_entry =
  ve_vmid :: "int option"
  ve_name :: "string option"
  ve_status :: "string option"

record detail_entry =
  de_name :: "string option"
  de_status :: "string option"
  de_uptime :: "int option"
  de_cpu :: "real option"
  de_mem :: "int option"
  de_maxmem :: "int option"

record snapshot_entry =
  se_name :: "string option"
  se_snaptime :: "int option"

subsection \<open>The platform: URLs, transport and JSON\<close>

text \<open>
  The client runs on the platform's \<open>URL\<close> class, its \<open>http\<close>/\<open>https\<close> modules and
  \<open>JSON.parse\<close>. They are not part of the repository, so they are parameters of the model.
  Of a URL the client reads the protocol only.
\<close>

record url =
  url_protocol :: string
  url_href :: string

datatype http_method = GET | POST | DELETE

text \<open>The options of \<open>new Agent({ rejectUnauthorized: false })\<close>.\<close>

record agent =
  agent_rejectUnauthorized :: bool

text \<open>One call of \<open>request(url, requestOptions, callback)\<close>, with what is written to it.\<close>

record request =
  req_url :: url
  req_method :: http_method
  req_headers :: "(string \<times> string) list"
  req_agent :: "agent option"
  req_rejectUnauthorized :: "bool option"
  req_written :: "string option"

text \<open>
  The values a promise of the client is rejected with: \<open>new Error(message)\<close>, the
  \<open>TypeError\<close> of the \<open>URL\<close> constructor and the \<open>SyntaxError\<close> of \<open>JSON.parse\<close>.
\<close>

datatype js_error = Error string | TypeError string | SyntaxError

text \<open>
  What comes back for a request: the \<open>error\<close> event, or a response with its status code
  (possibly undefined) and the chunks of its body up to the \<open>end\<close> event.
\<close>

datatype reply = Failed js_error | Response "int option" "string list"

text \<open>
  \<open>url_new s\<close> is \<open>new URL(s)\<close> and \<open>url_rel r b\<close> is \<open>new URL(r, b)\<close>, \<open>None\<close> when the
  constructor throws. \<open>send\<close> is the transport. \<open>second_settles_first q l\<close> tells which of
  two requests in flight together settles first. \<open>large_number_text\<close> is the text the
  language prints for an integer that is not safe (rounded digits, or an exponent from
  \<open>1e21\<close> on). The \<open>parse\<close> fields are \<open>JSON.parse\<close>
  read at the type the caller casts its result to: \<open>None\<close> when it throws, and inside
  that an absent \<open>data\<close> field is \<open>None\<close>.
\<close>

record platform =
  url_new :: "string \<Rightarrow> url option"
  url_rel :: "string \<Rightarrow> url \<Rightarrow> url option"
  send :: "request \<Rightarrow> reply"
  second_settles_first :: "request \<Rightarrow> request \<Rightarrow> bool"
  large_number_text :: "int \<Rightarrow> string"
  parse_nodes :: "string \<Rightarrow> node_entry list option option"
  parse_vms :: "string \<Rightarrow> vm_entry list option option"
  parse_detail :: "string \<Rightarrow> detail_entry option option"
  parse_snapshots :: "string \<Rightarrow> snapshot_entry list option option"
  parse_any :: "string \<Rightarrow> unit option"

text \<open>
  A number in a template literal, \<open>`${vmId}`\<close> or \<open>`${statusCode}`\<close>: the decimal digits
  of a safe integer, and what the language prints otherwise.
\<close>

definition number_text :: "platform \<Rightarrow> int \<Rightarrow> string" where
  "number_text P i = (if \<bar>i\<bar> < 2 ^ 53 then show_int i else large_number_text P i)"

subsection \<open>Asynchronous results\<close>

text \<open>The settled value of a promise and the requests issued on the way to it.\<close>

type_synonym 'a io = "(js_error + 'a) \<times> request list"

definition io_return :: "'a \<Rightarrow> 'a io" where
  "io_return v = (Inr v, [])"

definition io_throw :: "js_error \<Rightarrow> 'a io" where
  "io_throw e = (Inl e, [])"

definition io_bind :: "'a io \<Rightarrow> ('a \<Rightarrow> 'b io) \<Rightarrow> 'b io" where
  "io_bind m f =
     (case m of
        (Inl e, issued) \<Rightarrow> (Inl e, issued)
      | (Inr v, issued) \<Rightarrow> (case f v of (r, issued') \<Rightarrow> (r, issued @ issued')))"

definition new_URL :: "platform \<Rightarrow> string \<Rightarrow> url io" where
  "new_URL P s = (case url_new P s of None \<Rightarrow> io_throw (TypeError ''Invalid URL'') | Some u \<Rightarrow> io_return u)"

definition new_URL_rel :: "platform \<Rightarrow> string \<Rightarrow> url \<Rightarrow> url io" where
  "new_URL_rel P r b = (case url_rel P r b of None \<Rightarrow> io_throw (TypeError ''Invalid URL'') | Some u \<Rightarrow> io_return u)"

text \<open>
  \<open>Promise.all\<close> of two promises whose requests are both in flight: it fulfils when both
  do, and is rejected with the rejection that comes first.
\<close>

definition promise_all :: "bool \<Rightarrow> 'a io \<Rightarrow> 'b io \<Rightarrow> ('a \<times> 'b) io" where
  "promise_all second_first p q =
     (case (fst p, fst q) of
        (Inr a, Inr b) \<Rightarrow> Inr (a, b)
      | (Inl e, Inr b) \<Rightarrow> Inl e
      | (Inr a, Inl e) \<Rightarrow> Inl e
      | (Inl e, Inl e') \<Rightarrow> (if second_first then Inl e' else Inl e),
      snd p @ snd q)"

subsection \<open>The request\<close>

definition useHttps :: "url \<Rightarrow> bool" where
  "useHttps u \<longleftrightarrow> url_protocol u \<noteq> ''http:''"

definition payload_of :: "(string \<times> string) list option \<Rightarrow> string option" where
  "payload_of body = (case body of None \<Rightarrow> None | Some entries \<Rightarrow> Some (URLSearchParams_toString entries))"

text \<open>A string is truthy when it is defined and not empty.\<close>

definition truthy :: "string option \<Rightarrow> bool" where
  "truthy s \<longleftrightarrow> (case s of None \<Rightarrow> False | Some t \<Rightarrow> t \<noteq> [])"

definition requestOptions :: "ProxmoxClient \<Rightarrow> url \<Rightarrow> http_method \<Rightarrow> string option \<Rightarrow> request" where
  "requestOptions c u m payload =
     (let contentLength =
            (case payload of None \<Rightarrow> 0 | Some t \<Rightarrow> if t \<noteq> [] then byteLength t else 0)
      in \<lparr> req_url = u,
           req_method = m,
           req_headers =
             [(''Accept'', ''application/json''),
              (''Authorization'', ''PVEAPIToken='' @ apiToken c)] @
             (if truthy payload
              then [(''Content-Type'', ''application/x-www-form-urlencoded''),
                    (''Content-Length'', show_nat contentLength)]
              else []),
           req_agent =
             (if useHttps u \<and> allowInsecure c then Some \<lparr> agent_rejectUnauthorized = False \<rparr>
              else None),
           req_rejectUnauthorized = (if useHttps u then Some (\<not> allowInsecure c) else None),
           req_written = (if truthy payload then payload else None) \<rparr>)"

text \<open>\<open>!statusCode || statusCode < 200 || statusCode >= 300\<close>\<close>

definition status_rejected :: "int option \<Rightarrow> bool" where
  "status_rejected statusCode \<longleftrightarrow>
     (case statusCode of None \<Rightarrow> True | Some n \<Rightarrow> n = 0 \<or> n < 200 \<or> n \<ge> 300)"

definition api_error :: "platform \<Rightarrow> int option \<Rightarrow> string \<Rightarrow> js_error" where
  "api_error P statusCode body =
     Error (''Proxmox API error ''
            @ (case statusCode of None \<Rightarrow> ''unknown'' | Some n \<Rightarrow> number_text P n)
            @ '': '' @ body)"

definition requestJson ::
  "platform \<Rightarrow> ProxmoxClient \<Rightarrow> (string \<Rightarrow> 'a option) \<Rightarrow> url \<Rightarrow> http_method
     \<Rightarrow> (string \<times> string) list option \<Rightarrow> 'a io" where
  "requestJson P c parse u m body =
     (let req = requestOptions c u m (payload_of body)
      in (case send P req of
            Failed e \<Rightarrow> Inl e
          | Response statusCode chunks \<Rightarrow>
              (let responseBody = foldl (@) [] chunks
               in if status_rejected statusCode then Inl (api_error P statusCode responseBody)
                  else (case parse responseBody of None \<Rightarrow> Inl SyntaxError | Some v \<Rightarrow> Inr v)),
          [req]))"

subsection \<open>Normalisation of remote entries\<close>

definition normalizeStatus :: "string option \<Rightarrow> node_status" where
  "normalizeStatus status =
     (if status = Some ''online'' then Online
      else if status = Some ''offline'' then Offline
      else UnknownNode)"

definition normalizeVmStatus :: "string option \<Rightarrow> vm_status" where
  "normalizeVmStatus status =
     (if status = Some ''running'' then Running
      else if status = Some ''stopped'' then Stopped
      else UnknownVm)"

text \<open>\<open>name?.trim() || fallback\<close>\<close>

definition trimmed_or :: "string option \<Rightarrow> string \<Rightarrow> string" where
  "trimmed_or name fallback =
     (case name of
        None \<Rightarrow> fallback
      | Some s \<Rightarrow> if trim s = [] then fallback else trim s)"

definition mapVm :: "platform \<Rightarrow> vm_entry \<Rightarrow> vm_type \<Rightarrow> string \<Rightarrow> ProxmoxVm" where
  "mapVm P vm type node =
     \<lparr> vm_id = (case ve_vmid vm of None \<Rightarrow> - 1 | Some i \<Rightarrow> i),
       vm_name =
         trimmed_or (ve_name vm)
           (''VM '' @ (case ve_vmid vm of None \<Rightarrow> ''unknown'' | Some i \<Rightarrow> number_text P i)),
       vm_status = normalizeVmStatus (ve_status vm),
       vm_type = type,
       vm_node = node \<rparr>"

definition mapNode :: "node_entry \<Rightarrow> ProxmoxNode" where
  "mapNode node =
     \<lparr> node_name = (case ne_node node of None \<Rightarrow> ''unknown'' | Some n \<Rightarrow> n),
       node_status = normalizeStatus (ne_status node) \<rparr>"

text \<open>The comparator of \<open>listVirtualMachines\<close>: \<open>(a, b) => a.id - b.id\<close>.\<close>

definition compare_id :: "ProxmoxVm \<Rightarrow> ProxmoxVm \<Rightarrow> int" where
  "compare_id a b = vm_id a - vm_id b"

text \<open>\<open>response.data ?? []\<close>\<close>

definition data_or_empty :: "'a list option \<Rightarrow> 'a list" where
  "data_or_empty d = (case d of None \<Rightarrow> [] | Some xs \<Rightarrow> xs)"

definition mapDetails ::
  "platform \<Rightarrow> detail_entry option \<Rightarrow> string \<Rightarrow> vm_type \<Rightarrow> int \<Rightarrow> ProxmoxVmDetails" where
  "mapDetails P d node type vmId =
     (let data = (case d of
                    None \<Rightarrow> \<lparr> de_name = None, de_status = None, de_uptime = None,
                               de_cpu = None, de_mem = None, de_maxmem = None \<rparr>
                  | Some x \<Rightarrow> x)
      in \<lparr> det_id = vmId,
           det_name = trimmed_or (de_name data) (''VM '' @ number_text P vmId),
           det_status = (case de_status data of None \<Rightarrow> ''unknown'' | Some t \<Rightarrow> t),
           det_uptime = (case de_uptime data of None \<Rightarrow> 0 | Some n \<Rightarrow> n),
           det_cpu = (case de_cpu data of None \<Rightarrow> 0 | Some n \<Rightarrow> n),
           det_mem = (case de_mem data of None \<Rightarrow> 0 | Some n \<Rightarrow> n),
           det_maxMem = (case de_maxmem data of None \<Rightarrow> 0 | Some n \<Rightarrow> n),
           det_node = node,
           det_type = type \<rparr>)"

text \<open>The filter of \<open>listSnapshots\<close>: \<open>snapshot.name && snapshot.name !== 'current'\<close>.\<close>

definition keep_snapshot :: "snapshot_entry \<Rightarrow> bool" where
  "keep_snapshot snapshot \<longleftrightarrow> truthy (se_name snapshot) \<and> se_name snapshot \<noteq> Some ''current''"

definition mapSnapshot :: "snapshot_entry \<Rightarrow> ProxmoxSnapshot" where
  "mapSnapshot snapshot =
     \<lparr> snap_name = (case se_name snapshot of None \<Rightarrow> ''unknown'' | Some n \<Rightarrow> n),
       snap_createdAt = se_snaptime snapshot \<rparr>"

subsection \<open>The operations\<close>

definition not_configured :: js_error where
  "not_configured = Error ''Proxmox host or API token is not configured.''"

text \<open>\<open>this.host.endsWith('/') ? this.host : `${this.host}/`\<close>\<close>

definition slashed_host :: "ProxmoxClient \<Rightarrow> string" where
  "slashed_host c = (if endsWith (host c) ''/'' then host c else host c @ ''/'')"

definition normalizedBaseUrl :: "platform \<Rightarrow> ProxmoxClient \<Rightarrow> url io" where
  "normalizedBaseUrl P c = new_URL P (slashed_host c)"

text \<open>The path of a guest below \<open>api2/json/nodes\<close>, up to and including the guest id.\<close>

definition guest_path :: "platform \<Rightarrow> string \<Rightarrow> vm_type \<Rightarrow> int \<Rightarrow> string" where
  "guest_path P node type vmId =
     ''api2/json/nodes/'' @ encodeURIComponent node @ ''/'' @ type_text type @ ''/''
       @ number_text P vmId"

definition listNodes :: "platform \<Rightarrow> ProxmoxClient \<Rightarrow> ProxmoxNode list io" where
  "listNodes P c =
     (if host c = [] \<or> apiToken c = [] then io_throw not_configured
      else
        io_bind (new_URL P (slashed_host c)) (\<lambda>baseUrl.
        io_bind (new_URL_rel P ''api2/json/nodes'' baseUrl) (\<lambda>u.
        io_bind (requestJson P c (parse_nodes P) u GET None) (\<lambda>response.
        io_return (map mapNode (data_or_empty response))))))"

text \<open>
  Both requests are started before either is awaited. The first is already on its way
  when the URL of the second is built, so it is issued even if that constructor throws.
\<close>

definition listVirtualMachines :: "platform \<Rightarrow> ProxmoxClient \<Rightarrow> string \<Rightarrow> ProxmoxVm list io" where
  "listVirtualMachines P c node =
     (if host c = [] \<or> apiToken c = [] then io_throw not_configured
      else
        io_bind (new_URL P (slashed_host c)) (\<lambda>baseUrl.
        let nodePath = ''api2/json/nodes/'' @ encodeURIComponent node in
        io_bind (new_URL_rel P (nodePath @ ''/qemu'') baseUrl) (\<lambda>qemuUrl.
        let qemuPromise = requestJson P c (parse_vms P) qemuUrl GET None in
        (case url_rel P (nodePath @ ''/lxc'') baseUrl of
           None \<Rightarrow> (Inl (TypeError ''Invalid URL''), snd qemuPromise)
         | Some lxcUrl \<Rightarrow>
             let lxcPromise = requestJson P c (parse_vms P) lxcUrl GET None;
                 second_first = second_settles_first P (requestOptions c qemuUrl GET None)
                                  (requestOptions c lxcUrl GET None)
             in io_bind (promise_all second_first qemuPromise lxcPromise)
                  (\<lambda>(qemuResponse, lxcResponse).
                     let qemuVms = map (\<lambda>vm. mapVm P vm Qemu node) (data_or_empty qemuResponse);
                         lxcVms = map (\<lambda>vm. mapVm P vm Lxc node) (data_or_empty lxcResponse)
                     in io_return (array_sort compare_id (qemuVms @ lxcVms)))))))"

definition getVirtualMachineDetails ::
  "platform \<Rightarrow> ProxmoxClient \<Rightarrow> string \<Rightarrow> vm_type \<Rightarrow> int \<Rightarrow> ProxmoxVmDetails io" where
  "getVirtualMachineDetails P c node type vmId =
     (if host c = [] \<or> apiToken c = [] then io_throw not_configured
      else
        io_bind (normalizedBaseUrl P c) (\<lambda>baseUrl.
        io_bind (new_URL_rel P (guest_path P node type vmId @ ''/status/current'') baseUrl) (\<lambda>u.
        io_bind (requestJson P c (parse_detail P) u GET None) (\<lambda>response.
        io_return (mapDetails P response node type vmId)))))"

text \<open>
  The seven operations below have no test of the configuration of their own: they go
  straight to \<open>normalizedBaseUrl\<close> and \<open>requestJson\<close>.
\<close>

definition startVirtualMachine :: "platform \<Rightarrow> ProxmoxClient \<Rightarrow> string \<Rightarrow> vm_type \<Rightarrow> int \<Rightarrow> unit io" where
  "startVirtualMachine P c node type vmId =
     io_bind (normalizedBaseUrl P c) (\<lambda>baseUrl.
     io_bind (new_URL_rel P (guest_path P node type vmId @ ''/status/start'') baseUrl) (\<lambda>u.
     requestJson P c (parse_any P) u POST None))"

definition stopVirtualMachine :: "platform \<Rightarrow> ProxmoxClient \<Rightarrow> string \<Rightarrow> vm_type \<Rightarrow> int \<Rightarrow> unit io" where
  "stopVirtualMachine P c node type vmId =
     io_bind (normalizedBaseUrl P c) (\<lambda>baseUrl.
     io_bind (new_URL_rel P (guest_path P node type vmId @ ''/status/stop'') baseUrl) (\<lambda>u.
     requestJson P c (parse_any P) u POST None))"

definition restartVirtualMachine :: "platform \<Rightarrow> ProxmoxClient \<Rightarrow> string \<Rightarrow> vm_type \<Rightarrow> int \<Rightarrow> unit io" where
  "restartVirtualMachine P c node type vmId =
     io_bind (normalizedBaseUrl P c) (\<lambda>baseUrl.
     io_bind (new_URL_rel P (guest_path P node type vmId @ ''/status/reboot'') baseUrl) (\<lambda>u.
     requestJson P c (parse_any P) u POST None))"

definition listSnapshots ::
  "platform \<Rightarrow> ProxmoxClient \<Rightarrow> string \<Rightarrow> vm_type \<Rightarrow> int \<Rightarrow> ProxmoxSnapshot list io" where
  "listSnapshots P c node type vmId =
     io_bind (normalizedBaseUrl P c) (\<lambda>baseUrl.
     io_bind (new_URL_rel P (guest_path P node type vmId @ ''/snapshot'') baseUrl) (\<lambda>u.
     io_bind (requestJson P c (parse_snapshots P) u GET None) (\<lambda>response.
     io_return (map mapSnapshot (filter keep_snapshot (data_or_empty response))))))"

definition createSnapshot ::
  "platform \<Rightarrow> ProxmoxClient \<Rightarrow> string \<Rightarrow> vm_type \<Rightarrow> int \<Rightarrow> string \<Rightarrow> unit io" where
  "createSnapshot P c node type vmId name =
     io_bind (normalizedBaseUrl P c) (\<lambda>baseUrl.
     io_bind (new_URL_rel P (guest_path P node type vmId @ ''/snapshot'') baseUrl) (\<lambda>u.
     requestJson P c (parse_any P) u POST (Some [(''snapname'', name)])))"

definition deleteSnapshot ::
  "platform \<Rightarrow> ProxmoxClient \<Rightarrow> string \<Rightarrow> vm_type \<Rightarrow> int \<Rightarrow> string \<Rightarrow> unit io" where
  "deleteSnapshot P c node type vmId name =
     io_bind (normalizedBaseUrl P c) (\<lambda>baseUrl.
     io_bind (new_URL_rel P
                (guest_path P node type vmId @ ''/snapshot/'' @ encodeURIComponent name) baseUrl) (\<lambda>u.
     requestJson P c (parse_any P) u DELETE None))"

definition restoreSnapshot ::
  "platform \<Rightarrow> ProxmoxClient \<Rightarrow> string \<Rightarrow> vm_type \<Rightarrow> int \<Rightarrow> string \<Rightarrow> unit io" where
  "restoreSnapshot P c node type vmId name =
     io_bind (normalizedBaseUrl P c) (\<lambda>baseUrl.
     io_bind (new_URL_rel P
                (guest_path P node type vmId @ ''/snapshot/'' @ encodeURIComponent name @ ''/rollback'')
                baseUrl) (\<lambda>u.
     requestJson P c (parse_any P) u POST None))"

subsection \<open>Failing responses, seen from the caller\<close>

text \<open>
  Two shorthands for statements about the operations. \<open>passes_failure_on P parse X\<close>: for
  every request that the operation \<open>X\<close> has issued, a response to it with a status that
  is not 2xx rejects \<open>X\<close> with an error whose message contains the status code, as the
  language prints it, and the body, and a 2xx response whose body \<open>parse\<close> does not accept rejects \<open>X\<close> with
  \<open>SyntaxError\<close>.
\<close>

abbreviation passes_failure_on :: "platform \<Rightarrow> (string \<Rightarrow> 'b option) \<Rightarrow> 'a io \<Rightarrow> bool" where
  "passes_failure_on P parse X \<equiv>
     (\<forall>r \<in> set (snd X). \<forall>n chunks. send P r = Response (Some n) chunks \<longrightarrow>
        ((n < 200 \<or> 300 \<le> n) \<longrightarrow>
           (\<exists>msg. fst X = Inl (Error msg)
              \<and> sublist (number_text P n) msg \<and> sublist (concat chunks) msg))
        \<and> (200 \<le> n \<and> n < 300 \<and> parse (concat chunks) = None \<longrightarrow> fst X = Inl SyntaxError))"

text \<open>
  \<open>passes_failure_on_unless P c X u S sibling_first\<close> is the same for one of the two
  requests of \<open>listVirtualMachines\<close>, the one to \<open>u\<close>, whose sibling request settles as
  \<open>S\<close>: the operation is rejected with the failure of the response, unless the sibling is
  rejected too and settles first, and then with the sibling's error.
\<close>

abbreviation passes_failure_on_unless ::
  "platform \<Rightarrow> ProxmoxClient \<Rightarrow> 'a io \<Rightarrow> url \<Rightarrow> 'b io \<Rightarrow> bool \<Rightarrow> bool" where
  "passes_failure_on_unless P c X u S sibling_first \<equiv>
     (\<forall>n chunks. send P (requestOptions c u GET None) = Response (Some n) chunks \<longrightarrow>
        ((n < 200 \<or> 300 \<le> n) \<longrightarrow>
           (\<not> (sibling_first \<and> isl (fst S)) \<longrightarrow>
              (\<exists>msg. fst X = Inl (Error msg)
                 \<and> sublist (number_text P n) msg \<and> sublist (concat chunks) msg))
           \<and> (\<forall>e. sibling_first \<and> fst S = Inl e \<longrightarrow> fst X = Inl e))
        \<and> (200 \<le> n \<and> n < 300 \<and> parse_vms P (concat chunks) = None \<longrightarrow>
             (\<not> (sibling_first \<and> isl (fst S)) \<longrightarrow> fst X = Inl SyntaxError)
             \<and> (\<forall>e. sibling_first \<and> fst S = Inl e \<longrightarrow> fst X = Inl e)))"

subsection \<open>A transport double\<close>

text \<open>
  A fixed remote for running the client on concrete inputs: one cluster at
  \<open>https://h:8006\<close> (also reachable in plain text), its documents, and the platform
  functions restricted to the URLs and documents of that cluster. All its numbers are
  safe integers.
\<close>

definition doc_nodes :: string where
  \<open>doc_nodes = ''{"data":[{"node":"pve1","status":"online"},{"node":"pve2","status":"maintenance"},{"node":"pve3"},{"status":""}]}''\<close>

definition doc_pve1_qemu :: string where
  \<open>doc_pve1_qemu = ''{"data":[{"vmid":100,"name":"web","status":"running"}]}''\<close>

definition doc_pve1_lxc :: string where
  \<open>doc_pve1_lxc = ''{"data":[{"vmid":50,"name":"","status":"stopped"}]}''\<close>

definition doc_pve2_qemu :: string where
  \<open>doc_pve2_qemu = ''{"data":[{"vmid":7,"status":"paused"},{"name":"  "},{"vmid":7,"name":"db"}]}''\<close>

definition doc_pve2_lxc :: string where
  \<open>doc_pve2_lxc = ''{"data":[{"status":"running"},{"vmid":7,"name":"ct"}]}''\<close>

definition doc_detail :: string where
  \<open>doc_detail = ''{"data":{"name":" ","status":"stopped","uptime":12}}''\<close>

definition doc_snapshots :: string where
  \<open>doc_snapshots = ''{"data":[{"name":"current"},{"name":"before-upgrade","snaptime":1700000000},{"name":""},{"snaptime":5},{"name":"nightly"}]}''\<close>

definition doc_null :: string where
  \<open>doc_null = ''{"data":null}''\<close>

definition demo_url_new :: "string \<Rightarrow> url option" where
  "demo_url_new s =
     (if s = ''https://h:8006/'' then Some \<lparr> url_protocol = ''https:'', url_href = s \<rparr>
      else if s = ''http://h:8006/'' then Some \<lparr> url_protocol = ''http:'', url_href = s \<rparr>
      else None)"

definition demo_url_rel :: "string \<Rightarrow> url \<Rightarrow> url option" where
  "demo_url_rel r b = Some \<lparr> url_protocol = url_protocol b, url_href = url_href b @ r \<rparr>"

text \<open>The path of a request to the double: its address without scheme and authority.\<close>

definition demo_path :: "request \<Rightarrow> string" where
  "demo_path r = drop (length (url_protocol (req_url r)) + 9) (url_href (req_url r))"

definition demo_send :: "request \<Rightarrow> reply" where
  "demo_send r =
     (let p = demo_path r in
      if p = ''api2/json/nodes'' then Response (Some 200) [doc_nodes]
      else if p = ''api2/json/nodes/pve1/qemu'' then Response (Some 200) [doc_pve1_qemu]
      else if p = ''api2/json/nodes/pve1/lxc'' then Response (Some 200) [doc_pve1_lxc]
      else if p = ''api2/json/nodes/pve2/qemu'' then Response (Some 200) [doc_pve2_qemu]
      else if p = ''api2/json/nodes/pve2/lxc'' then Response (Some 200) [doc_pve2_lxc]
      else if p = ''api2/json/nodes/pve3/qemu'' then Response (Some 200) [doc_pve1_qemu]
      else if p = ''api2/json/nodes/pve3/lxc'' then Response (Some 500) [''permission '', ''denied'']
      else if p = ''api2/json/nodes/pve4/qemu'' then Response (Some 200) [''not-json'']
      else if p = ''api2/json/nodes/pve3/qemu/100/status/stop''
        then Response (Some 500) [''permission '', ''denied'']
      else if p = ''api2/json/nodes/pve4/qemu/100/status/current''
        then Response (Some 200) [''not-json'']
      else if p = ''api2/json/nodes/pve1/lxc/50/status/current'' then Response (Some 200) [doc_detail]
      else if p = ''api2/json/nodes/pve1/qemu/100/snapshot'' \<and> req_method r = GET
        then Response (Some 200) [doc_snapshots]
      else Response (Some 200) [doc_null])"

definition demo_parse_nodes :: "string \<Rightarrow> node_entry list option option" where
  "demo_parse_nodes t =
     (if t = doc_nodes then
        Some (Some [\<lparr> ne_node = Some ''pve1'', ne_status = Some ''online'' \<rparr>,
                    \<lparr> ne_node = Some ''pve2'', ne_status = Some ''maintenance'' \<rparr>,
                    \<lparr> ne_node = Some ''pve3'', ne_status = None \<rparr>,
                    \<lparr> ne_node = None, ne_status = Some [] \<rparr>])
      else if t = doc_null then Some None
      else None)"

definition demo_parse_vms :: "string \<Rightarrow> vm_entry list option option" where
  "demo_parse_vms t =
     (if t = doc_pve1_qemu then
        Some (Some [\<lparr> ve_vmid = Some 100, ve_name = Some ''web'', ve_status = Some ''running'' \<rparr>])
      else if t = doc_pve1_lxc then
        Some (Some [\<lparr> ve_vmid = Some 50, ve_name = Some [], ve_status = Some ''stopped'' \<rparr>])
      else if t = doc_pve2_qemu then
        Some (Some [\<lparr> ve_vmid = Some 7, ve_name = None, ve_status = Some ''paused'' \<rparr>,
                    \<lparr> ve_vmid = None, ve_name = Some ''  '', ve_status = None \<rparr>,
                    \<lparr> ve_vmid = Some 7, ve_name = Some ''db'', ve_status = None \<rparr>])
      else if t = doc_pve2_lxc then
        Some (Some [\<lparr> ve_vmid = None, ve_name = None, ve_status = Some ''running'' \<rparr>,
                    \<lparr> ve_vmid = Some 7, ve_name = Some ''ct'', ve_status = None \<rparr>])
      else if t = doc_null then Some None
      else None)"

definition demo_parse_detail :: "string \<Rightarrow> detail_entry option option" where
  "demo_parse_detail t =
     (if t = doc_detail then
        Some (Some \<lparr> de_name = Some '' '', de_status = Some ''stopped'', de_uptime = Some 12,
                     de_cpu = None, de_mem = None, de_maxmem = None \<rparr>)
      else if t = doc_null then Some None
      else None)"

definition demo_parse_snapshots :: "string \<Rightarrow> snapshot_entry list option option" where
  "demo_parse_snapshots t =
     (if t = doc_snapshots then
        Some (Some [\<lparr> se_name = Some ''current'', se_snaptime = None \<rparr>,
                    \<lparr> se_name = Some ''before-upgrade'', se_snaptime = Some 1700000000 \<rparr>,
                    \<lparr> se_name = Some [], se_snaptime = None \<rparr>,
                    \<lparr> se_name = None, se_snaptime = Some 5 \<rparr>,
                    \<lparr> se_name = Some ''nightly'', se_snaptime = None \<rparr>])
      else if t = doc_null then Some None
      else None)"

definition demo_parse_any :: "string \<Rightarrow> unit option" where
  "demo_parse_any t =
     (if t \<in> {doc_nodes, doc_pve1_qemu, doc_pve1_lxc, doc_pve2_qemu, doc_pve2_lxc, doc_detail,
               doc_snapshots, doc_null}
      then Some () else None)"

definition demo :: platform where
  "demo =
     \<lparr> url_new = demo_url_new,
       url_rel = demo_url_rel,
       send = demo_send,
       second_settles_first = (\<lambda>q l. False),
       large_number_text = (\<lambda>i. []),
       parse_nodes = demo_parse_nodes,
       parse_vms = demo_parse_vms,
       parse_detail = demo_parse_detail,
       parse_snapshots = demo_parse_snapshots,
       parse_any = demo_parse_any \<rparr>"

text \<open>Clients for the double: the one of the specification's scenario and variants of it.\<close>

definition demo_client :: ProxmoxClient where
  "demo_client =
     new_ProxmoxClient \<lparr> cfg_host = ''https://h:8006'', cfg_apiToken = ''u@pve!t=secret'',
                         cfg_allowInsecure = None \<rparr>"

definition insecure_client :: ProxmoxClient where
  "insecure_client =
     new_ProxmoxClient \<lparr> cfg_host = '' https://h:8006/ '', cfg_apiToken = ''u@pve!t=secret'',
                         cfg_allowInsecure = Some True \<rparr>"

definition plain_client :: ProxmoxClient where
  "plain_client =
     new_ProxmoxClient \<lparr> cfg_host = ''http://h:8006'', cfg_apiToken = ''u@pve!t=secret'',
                         cfg_allowInsecure = Some True \<rparr>"

definition tokenless_client :: ProxmoxClient where
  "tokenless_client =
     new_ProxmoxClient \<lparr> cfg_host = ''https://h:8006'', cfg_apiToken = ''  '',
                         cfg_allowInsecure = None \<rparr>"

definition demo_base :: url where
  "demo_base = \<lparr> url_protocol = ''https:'', url_href = ''https://h:8006/'' \<rparr>"

definition demo_at :: "string \<Rightarrow> url" where
  "demo_at path = \<lparr> url_protocol = ''https:'', url_href = ''https://h:8006/'' @ path \<rparr>"

text \<open>The payloads of the double, as the client sees them after parsing.\<close>

definition pve2_qemu :: "vm_entry list" where
  "pve2_qemu =
     [\<lparr> ve_vmid = Some 7, ve_name = None, ve_status = Some ''paused'' \<rparr>,
      \<lparr> ve_vmid = None, ve_name = Some ''  '', ve_status = None \<rparr>,
      \<lparr> ve_vmid = Some 7, ve_name = Some ''db'', ve_status = None \<rparr>]"

definition pve2_lxc :: "vm_entry list" where
  "pve2_lxc =
     [\<lparr> ve_vmid = None, ve_name = None, ve_status = Some ''running'' \<rparr>,
      \<lparr> ve_vmid = Some 7, ve_name = Some ''ct'', ve_status = None \<rparr>]"

section \<open>Properties\<close>

subsection \<open>Results of promises\<close>

lemma io_bind_return [simp]: "io_bind (io_return v) f = f v"
  by (cases "f v") (simp add: io_bind_def io_return_def)

lemma io_bind_throw [simp]: "io_bind (io_throw e) f = io_throw e"
  by (simp add: io_bind_def io_throw_def)

lemma fst_io_return [simp]: "fst (io_return v) = Inr v"
  by (simp add: io_return_def)

lemma snd_io_return [simp]: "snd (io_return v) = []"
  by (simp add: io_return_def)

lemma snd_io_throw [simp]: "snd (io_throw e) = []"
  by (simp add: io_throw_def)

lemma fst_io_bind_Inr: "fst m = Inr v \<Longrightarrow> fst (io_bind m f) = fst (f v)"
  by (cases m; cases "f v") (simp add: io_bind_def)

lemma fst_io_bind_Inl: "fst m = Inl e \<Longrightarrow> fst (io_bind m f) = Inl e"
  by (cases m) (simp add: io_bind_def)

lemma snd_io_bind_Inr: "fst m = Inr v \<Longrightarrow> snd (io_bind m f) = snd m @ snd (f v)"
  by (cases m; cases "f v") (simp add: io_bind_def)

lemma snd_io_bind_Inl: "fst m = Inl e \<Longrightarrow> snd (io_bind m f) = snd m"
  by (cases m) (simp add: io_bind_def)

lemma snd_io_bind:
  "snd (io_bind m f) = snd m @ (case fst m of Inl e \<Rightarrow> [] | Inr v \<Rightarrow> snd (f v))"
  by (cases "fst m") (simp_all add: snd_io_bind_Inl snd_io_bind_Inr)

lemma new_URL_Some: "url_new P s = Some u \<Longrightarrow> new_URL P s = io_return u"
  by (simp add: new_URL_def)

lemma new_URL_rel_Some: "url_rel P r b = Some u \<Longrightarrow> new_URL_rel P r b = io_return u"
  by (simp add: new_URL_rel_def)

lemma snd_new_URL [simp]: "snd (new_URL P s) = []"
  by (simp add: new_URL_def split: option.splits)

lemma snd_new_URL_rel [simp]: "snd (new_URL_rel P r b) = []"
  by (simp add: new_URL_rel_def split: option.splits)

lemma snd_promise_all [simp]: "snd (promise_all sf p q) = snd p @ snd q"
  by (simp add: promise_all_def)

lemma snd_requestJson: "snd (requestJson P c parse u m body) = [requestOptions c u m (payload_of body)]"
  by (simp add: requestJson_def Let_def)

lemma foldl_append_concat: "foldl (@) acc xs = acc @ concat xs"
  by (induction xs arbitrary: acc) simp_all

subsection \<open>The sort\<close>

lemma insert_sorted_compare_id: "insert_sorted compare_id x xs = insort_key vm_id x xs"
  by (induction xs) (simp_all add: compare_id_def)

lemma array_sort_compare_id: "array_sort compare_id xs = sort_key vm_id xs"
  by (induction xs) (simp_all add: insert_sorted_compare_id)

lemma set_array_sort_compare_id: "set (array_sort compare_id xs) = set xs"
  by (simp add: array_sort_compare_id)

subsection \<open>Results of the operations\<close>

lemma listNodes_fulfilled:
  assumes "host c \<noteq> []" and "apiToken c \<noteq> []"
    and "url_new P (slashed_host c) = Some b"
    and "url_rel P ''api2/json/nodes'' b = Some u"
    and "fst (requestJson P c (parse_nodes P) u GET None) = Inr d"
  shows "fst (listNodes P c) = Inr (map mapNode (data_or_empty d))"
  using assms
  by (simp add: listNodes_def new_URL_Some new_URL_rel_Some fst_io_bind_Inr io_return_def)

lemma listVirtualMachines_settled:
  assumes "host c \<noteq> []" and "apiToken c \<noteq> []"
    and "url_new P (slashed_host c) = Some b"
    and "url_rel P (''api2/json/nodes/'' @ encodeURIComponent node @ ''/qemu'') b = Some uq"
    and "url_rel P (''api2/json/nodes/'' @ encodeURIComponent node @ ''/lxc'') b = Some ul"
  shows "fst (listVirtualMachines P c node) =
           (case fst (promise_all
                        (second_settles_first P (requestOptions c uq GET None)
                           (requestOptions c ul GET None))
                        (requestJson P c (parse_vms P) uq GET None)
                        (requestJson P c (parse_vms P) ul GET None)) of
              Inl e \<Rightarrow> Inl e
            | Inr (dq, dl) \<Rightarrow>
                Inr (array_sort compare_id
                       (map (\<lambda>vm. mapVm P vm Qemu node) (data_or_empty dq) @
                        map (\<lambda>vm. mapVm P vm Lxc node) (data_or_empty dl))))"
  using assms
  by (auto simp add: listVirtualMachines_def new_URL_Some new_URL_rel_Some Let_def
      fst_io_bind_Inr fst_io_bind_Inl io_return_def split: sum.splits)

lemma listVirtualMachines_fulfilled:
  assumes "host c \<noteq> []" and "apiToken c \<noteq> []"
    and "url_new P (slashed_host c) = Some b"
    and "url_rel P (''api2/json/nodes/'' @ encodeURIComponent node @ ''/qemu'') b = Some uq"
    and "url_rel P (''api2/json/nodes/'' @ encodeURIComponent node @ ''/lxc'') b = Some ul"
    and "fst (requestJson P c (parse_vms P) uq GET None) = Inr dq"
    and "fst (requestJson P c (parse_vms P) ul GET None) = Inr dl"
  shows "fst (listVirtualMachines P c node) =
           Inr (array_sort compare_id
                  (map (\<lambda>vm. mapVm P vm Qemu node) (data_or_empty dq) @
                   map (\<lambda>vm. mapVm P vm Lxc node) (data_or_empty dl)))"
proof -
  have "fst (promise_all sf (requestJson P c (parse_vms P) uq GET None)
               (requestJson P c (parse_vms P) ul GET None)) = Inr (dq, dl)" for sf
    using assms(6,7) by (simp add: promise_all_def)
  then show ?thesis
    using assms(1-5)
    by (simp add: listVirtualMachines_def new_URL_Some new_URL_rel_Some Let_def
        fst_io_bind_Inr io_return_def)
qed

lemma getVirtualMachineDetails_fulfilled:
  assumes "host c \<noteq> []" and "apiToken c \<noteq> []"
    and "url_new P (slashed_host c) = Some b"
    and "url_rel P (guest_path P node type vmId @ ''/status/current'') b = Some u"
    and "fst (requestJson P c (parse_detail P) u GET None) = Inr d"
  shows "fst (getVirtualMachineDetails P c node type vmId) = Inr (mapDetails P d node type vmId)"
  using assms
  by (simp add: getVirtualMachineDetails_def normalizedBaseUrl_def new_URL_Some new_URL_rel_Some
      fst_io_bind_Inr io_return_def)

lemma listSnapshots_fulfilled:
  assumes "url_new P (slashed_host c) = Some b"
    and "url_rel P (guest_path P node type vmId @ ''/snapshot'') b = Some u"
    and "fst (requestJson P c (parse_snapshots P) u GET None) = Inr d"
  shows "fst (listSnapshots P c node type vmId) =
           Inr (map mapSnapshot (filter keep_snapshot (data_or_empty d)))"
  using assms
  by (simp add: listSnapshots_def normalizedBaseUrl_def new_URL_Some new_URL_rel_Some
      fst_io_bind_Inr io_return_def)

subsection \<open>The double at work\<close>

lemma demo_client_host: "host demo_client \<noteq> []"
  by code_simp

lemma demo_client_token: "apiToken demo_client \<noteq> []"
  by code_simp

lemma demo_client_base: "url_new demo (slashed_host demo_client) = Some demo_base"
  by code_simp

lemma demo_nodes_url: "url_rel demo ''api2/json/nodes'' demo_base = Some (demo_at ''api2/json/nodes'')"
  by code_simp

lemma demo_nodes:
  "fst (requestJson demo demo_client (parse_nodes demo) (demo_at ''api2/json/nodes'') GET None)
     = Inr (Some [\<lparr> ne_node = Some ''pve1'', ne_status = Some ''online'' \<rparr>,
                  \<lparr> ne_node = Some ''pve2'', ne_status = Some ''maintenance'' \<rparr>,
                  \<lparr> ne_node = Some ''pve3'', ne_status = None \<rparr>,
                  \<lparr> ne_node = None, ne_status = Some [] \<rparr>])"
  by code_simp

lemma demo_pve1_qemu_url:
  "url_rel demo (''api2/json/nodes/'' @ encodeURIComponent ''pve1'' @ ''/qemu'') demo_base
     = Some (demo_at ''api2/json/nodes/pve1/qemu'')"
  by code_simp

lemma demo_pve1_lxc_url:
  "url_rel demo (''api2/json/nodes/'' @ encodeURIComponent ''pve1'' @ ''/lxc'') demo_base
     = Some (demo_at ''api2/json/nodes/pve1/lxc'')"
  by code_simp

lemma demo_pve1_qemu:
  "fst (requestJson demo demo_client (parse_vms demo) (demo_at ''api2/json/nodes/pve1/qemu'') GET None)
     = Inr (Some [\<lparr> ve_vmid = Some 100, ve_name = Some ''web'', ve_status = Some ''running'' \<rparr>])"
  by code_simp

lemma demo_pve1_lxc:
  "fst (requestJson demo demo_client (parse_vms demo) (demo_at ''api2/json/nodes/pve1/lxc'') GET None)
     = Inr (Some [\<lparr> ve_vmid = Some 50, ve_name = Some [], ve_status = Some ''stopped'' \<rparr>])"
  by code_simp

lemma demo_pve2_qemu_url:
  "url_rel demo (''api2/json/nodes/'' @ encodeURIComponent ''pve2'' @ ''/qemu'') demo_base
     = Some (demo_at ''api2/json/nodes/pve2/qemu'')"
  by code_simp

lemma demo_pve2_lxc_url:
  "url_rel demo (''api2/json/nodes/'' @ encodeURIComponent ''pve2'' @ ''/lxc'') demo_base
     = Some (demo_at ''api2/json/nodes/pve2/lxc'')"
  by code_simp

lemma demo_pve2_qemu:
  "fst (requestJson demo demo_client (parse_vms demo) (demo_at ''api2/json/nodes/pve2/qemu'') GET None)
     = Inr (Some pve2_qemu)"
  by code_simp

lemma demo_pve2_lxc:
  "fst (requestJson demo demo_client (parse_vms demo) (demo_at ''api2/json/nodes/pve2/lxc'') GET None)
     = Inr (Some pve2_lxc)"
  by code_simp

lemma demo_pve3_qemu_url:
  "url_rel demo (''api2/json/nodes/'' @ encodeURIComponent ''pve3'' @ ''/qemu'') demo_base
     = Some (demo_at ''api2/json/nodes/pve3/qemu'')"
  by code_simp

lemma demo_pve3_lxc_url:
  "url_rel demo (''api2/json/nodes/'' @ encodeURIComponent ''pve3'' @ ''/lxc'') demo_base
     = Some (demo_at ''api2/json/nodes/pve3/lxc'')"
  by code_simp

lemma demo_pve3_qemu:
  "fst (requestJson demo demo_client (parse_vms demo) (demo_at ''api2/json/nodes/pve3/qemu'') GET None)
     = Inr (Some [\<lparr> ve_vmid = Some 100, ve_name = Some ''web'', ve_status = Some ''running'' \<rparr>])"
  by code_simp

lemma demo_pve3_lxc:
  "fst (requestJson demo demo_client (parse_vms demo) (demo_at ''api2/json/nodes/pve3/lxc'') GET None)
     = Inl (Error ''Proxmox API error 500: permission denied'')"
  by code_simp

lemma demo_detail_url:
  "url_rel demo (guest_path demo ''pve1'' Lxc 50 @ ''/status/current'') demo_base
     = Some (demo_at ''api2/json/nodes/pve1/lxc/50/status/current'')"
  by code_simp

lemma demo_detail:
  "fst (requestJson demo demo_client (parse_detail demo)
          (demo_at ''api2/json/nodes/pve1/lxc/50/status/current'') GET None)
     = Inr (Some \<lparr> de_name = Some '' '', de_status = Some ''stopped'', de_uptime = Some 12,
                    de_cpu = None, de_mem = None, de_maxmem = None \<rparr>)"
  by code_simp

lemma demo_snapshot_url:
  "url_rel demo (guest_path demo ''pve1'' Qemu 100 @ ''/snapshot'') demo_base
     = Some (demo_at ''api2/json/nodes/pve1/qemu/100/snapshot'')"
  by code_simp

lemma demo_snapshots:
  "fst (requestJson demo demo_client (parse_snapshots demo)
          (demo_at ''api2/json/nodes/pve1/qemu/100/snapshot'') GET None)
     = Inr (Some [\<lparr> se_name = Some ''current'', se_snaptime = None \<rparr>,
                  \<lparr> se_name = Some ''before-upgrade'', se_snaptime = Some 1700000000 \<rparr>,
                  \<lparr> se_name = Some [], se_snaptime = None \<rparr>,
                  \<lparr> se_name = None, se_snaptime = Some 5 \<rparr>,
                  \<lparr> se_name = Some ''nightly'', se_snaptime = None \<rparr>])"
  by code_simp

lemma demo_insecure_request:
  "snd (listNodes demo insecure_client) =
     [requestOptions insecure_client (demo_at ''api2/json/nodes'') GET None]"
  by code_simp

subsection \<open>The test of the configuration\<close>

lemma guarded_operations:
  assumes "host c = [] \<or> apiToken c = []"
  shows "listNodes P c = (Inl not_configured, [])"
    and "listVirtualMachines P c node = (Inl not_configured, [])"
    and "getVirtualMachineDetails P c node type vmId = (Inl not_configured, [])"
  using assms
  by (auto simp add: listNodes_def listVirtualMachines_def getVirtualMachineDetails_def io_throw_def)

lemma unguarded_operations:
  assumes "url_new P (slashed_host c) = Some b" and "\<And>r. url_rel P r b \<noteq> None"
  shows "length (snd (startVirtualMachine P c node type vmId)) = 1"
    and "length (snd (stopVirtualMachine P c node type vmId)) = 1"
    and "length (snd (restartVirtualMachine P c node type vmId)) = 1"
    and "length (snd (listSnapshots P c node type vmId)) = 1"
    and "length (snd (createSnapshot P c node type vmId name)) = 1"
    and "length (snd (deleteSnapshot P c node type vmId name)) = 1"
    and "length (snd (restoreSnapshot P c node type vmId name)) = 1"
proof -
  have rel: "\<exists>u. new_URL_rel P r b = io_return u" for r
    using assms(2) [of r] by (auto simp add: new_URL_rel_def)
  have one: "length (snd (io_bind (normalizedBaseUrl P c) (\<lambda>baseUrl.
               io_bind (new_URL_rel P r baseUrl) (\<lambda>u. io_bind (requestJson P c parse u m body) k)))) = 1"
    if "\<And>v. snd (k v) = []" for r parse m body and k :: "'a \<Rightarrow> 'b io"
    using rel [of r] that
    by (auto simp add: normalizedBaseUrl_def new_URL_Some [OF assms(1)] snd_io_bind snd_requestJson
        split: sum.splits)
  have two: "length (snd (io_bind (normalizedBaseUrl P c) (\<lambda>baseUrl.
               io_bind (new_URL_rel P r baseUrl) (\<lambda>u. requestJson P c parse u m body)))) = 1"
    for r m body and parse :: "string \<Rightarrow> 'a option"
    using rel [of r]
    by (auto simp add: normalizedBaseUrl_def new_URL_Some [OF assms(1)] snd_requestJson)
  show "length (snd (startVirtualMachine P c node type vmId)) = 1"
    and "length (snd (stopVirtualMachine P c node type vmId)) = 1"
    and "length (snd (restartVirtualMachine P c node type vmId)) = 1"
    and "length (snd (createSnapshot P c node type vmId name)) = 1"
    and "length (snd (deleteSnapshot P c node type vmId name)) = 1"
    and "length (snd (restoreSnapshot P c node type vmId name)) = 1"
    unfolding startVirtualMachine_def stopVirtualMachine_def restartVirtualMachine_def
      createSnapshot_def deleteSnapshot_def restoreSnapshot_def
    by (rule two)+
  show "length (snd (listSnapshots P c node type vmId)) = 1"
    unfolding listSnapshots_def by (rule one) simp
qed

text \<open>
  C1: with an empty host or an empty token every operation is to fail with the
  configuration error before any request is sent. \<open>listNodes\<close>, \<open>listVirtualMachines\<close> and
  \<open>getVirtualMachineDetails\<close> test the configuration first and do so
  (\<open>guarded_operations\<close>). The other seven operations have no such test
  (\<open>unguarded_operations\<close>): a client with a host and an empty token starts a guest by
  sending the request, with an empty token in its \<open>Authorization\<close> header, and the promise
  is fulfilled.
\<close>

theorem startVirtualMachine_without_token:
  "apiToken tokenless_client = []
   \<and> startVirtualMachine demo tokenless_client ''pve1'' Qemu 100 =
       (Inr (),
        [\<lparr> req_url = demo_at ''api2/json/nodes/pve1/qemu/100/status/start'',
            req_method = POST,
            req_headers = [(''Accept'', ''application/json''), (''Authorization'', ''PVEAPIToken='')],
            req_agent = None,
            req_rejectUnauthorized = Some True,
            req_written = None \<rparr>])"
  by code_simp

subsection \<open>Listing the guests of a node\<close>

text \<open>
  C2: when the qemu collection of a node returns N entries and its lxc collection M,
  \<open>listVirtualMachines\<close> returns N + M records in non-decreasing order of id; records with
  the same id keep the order of the merged list, and the comparator does not look at the
  type.
\<close>

theorem listVirtualMachines_sorted_stable:
  assumes "host c \<noteq> []" and "apiToken c \<noteq> []"
    and "url_new P (slashed_host c) = Some b"
    and "url_rel P (''api2/json/nodes/'' @ encodeURIComponent node @ ''/qemu'') b = Some uq"
    and "url_rel P (''api2/json/nodes/'' @ encodeURIComponent node @ ''/lxc'') b = Some ul"
    and "fst (requestJson P c (parse_vms P) uq GET None) = Inr dq"
    and "fst (requestJson P c (parse_vms P) ul GET None) = Inr dl"
  shows "\<exists>vms. fst (listVirtualMachines P c node) = Inr vms
           \<and> length vms = length (data_or_empty dq) + length (data_or_empty dl)
           \<and> sorted (map vm_id vms)
           \<and> (\<forall>k. filter (\<lambda>v. vm_id v = k) vms =
                    filter (\<lambda>v. vm_id v = k)
                      (map (\<lambda>vm. mapVm P vm Qemu node) (data_or_empty dq) @
                       map (\<lambda>vm. mapVm P vm Lxc node) (data_or_empty dl)))
           \<and> (\<forall>x y t t'. compare_id (x\<lparr>vm_type := t\<rparr>) (y\<lparr>vm_type := t'\<rparr>) = compare_id x y)"
proof -
  let ?merged = "map (\<lambda>vm. mapVm P vm Qemu node) (data_or_empty dq) @
                 map (\<lambda>vm. mapVm P vm Lxc node) (data_or_empty dl)"
  have res: "fst (listVirtualMachines P c node) = Inr (sort_key vm_id ?merged)"
    using listVirtualMachines_fulfilled [OF assms] by (simp add: array_sort_compare_id)
  have len: "length (sort_key vm_id ?merged) = length (data_or_empty dq) + length (data_or_empty dl)"
    by simp
  have srt: "sorted (map vm_id (sort_key vm_id ?merged))"
    by (rule sorted_sort_key)
  have stable: "filter (\<lambda>v. vm_id v = k) (sort_key vm_id ?merged) = filter (\<lambda>v. vm_id v = k) ?merged" for k
    by (rule sort_key_stable)
  have cmp: "compare_id (x\<lparr>vm_type := t\<rparr>) (y\<lparr>vm_type := t'\<rparr>) = compare_id x y" for x y t t'
    by (simp add: compare_id_def)
  from res len srt stable cmp show ?thesis by blast
qed

theorem listVirtualMachines_sorted_stable_witness:
  "\<exists>vms. fst (listVirtualMachines demo demo_client ''pve2'') = Inr vms
         \<and> length vms = 3 + 2
         \<and> sorted (map vm_id vms)
         \<and> filter (\<lambda>v. vm_id v = 7) vms =
             [mapVm demo \<lparr> ve_vmid = Some 7, ve_name = None, ve_status = Some ''paused'' \<rparr> Qemu ''pve2'',
              mapVm demo \<lparr> ve_vmid = Some 7, ve_name = Some ''db'', ve_status = None \<rparr> Qemu ''pve2'',
              mapVm demo \<lparr> ve_vmid = Some 7, ve_name = Some ''ct'', ve_status = None \<rparr> Lxc ''pve2'']"
proof -
  from listVirtualMachines_sorted_stable
    [OF demo_client_host demo_client_token demo_client_base demo_pve2_qemu_url
      demo_pve2_lxc_url demo_pve2_qemu demo_pve2_lxc]
  obtain vms where "fst (listVirtualMachines demo demo_client ''pve2'') = Inr vms"
    and "length vms = length (data_or_empty (Some pve2_qemu)) + length (data_or_empty (Some pve2_lxc))"
    and "sorted (map vm_id vms)"
    and st: "\<forall>k. filter (\<lambda>v. vm_id v = k) vms =
                    filter (\<lambda>v. vm_id v = k)
                      (map (\<lambda>vm. mapVm demo vm Qemu ''pve2'') (data_or_empty (Some pve2_qemu)) @
                       map (\<lambda>vm. mapVm demo vm Lxc ''pve2'') (data_or_empty (Some pve2_lxc)))"
    by blast
  moreover from st have "filter (\<lambda>v. vm_id v = 7) vms =
             [mapVm demo \<lparr> ve_vmid = Some 7, ve_name = None, ve_status = Some ''paused'' \<rparr> Qemu ''pve2'',
              mapVm demo \<lparr> ve_vmid = Some 7, ve_name = Some ''db'', ve_status = None \<rparr> Qemu ''pve2'',
              mapVm demo \<lparr> ve_vmid = Some 7, ve_name = Some ''ct'', ve_status = None \<rparr> Lxc ''pve2'']"
    by (simp add: data_or_empty_def mapVm_def pve2_qemu_def pve2_lxc_def)
  ultimately show ?thesis by (simp add: data_or_empty_def pve2_qemu_def pve2_lxc_def)
qed

text \<open>
  C3: when the qemu request or the lxc request of \<open>listVirtualMachines\<close> is rejected, the
  operation is rejected, with the error of a rejected request; it returns no list.
\<close>

theorem listVirtualMachines_all_or_nothing:
  assumes "host c \<noteq> []" and "apiToken c \<noteq> []"
    and "url_new P (slashed_host c) = Some b"
    and "url_rel P (''api2/json/nodes/'' @ encodeURIComponent node @ ''/qemu'') b = Some uq"
    and "url_rel P (''api2/json/nodes/'' @ encodeURIComponent node @ ''/lxc'') b = Some ul"
    and "isl (fst (requestJson P c (parse_vms P) uq GET None))
         \<or> isl (fst (requestJson P c (parse_vms P) ul GET None))"
  shows "\<exists>e. fst (listVirtualMachines P c node) = Inl e
           \<and> (fst (requestJson P c (parse_vms P) uq GET None) = Inl e
              \<or> fst (requestJson P c (parse_vms P) ul GET None) = Inl e)"
proof -
  let ?q = "requestJson P c (parse_vms P) uq GET None"
  let ?l = "requestJson P c (parse_vms P) ul GET None"
  have "\<exists>e. fst (promise_all sf ?q ?l) = Inl e \<and> (fst ?q = Inl e \<or> fst ?l = Inl e)" for sf
    using assms(6) by (cases "fst ?q"; cases "fst ?l") (simp_all add: promise_all_def)
  then show ?thesis
    unfolding listVirtualMachines_settled [OF assms(1-5)]
    by (metis sum.simps(5))
qed

theorem listVirtualMachines_all_or_nothing_witness:
  "fst (listVirtualMachines demo demo_client ''pve3'') =
     Inl (Error ''Proxmox API error 500: permission denied'')"
proof -
  have "isl (fst (requestJson demo demo_client (parse_vms demo) (demo_at ''api2/json/nodes/pve3/qemu'') GET None))
        \<or> isl (fst (requestJson demo demo_client (parse_vms demo) (demo_at ''api2/json/nodes/pve3/lxc'') GET None))"
    by (simp add: demo_pve3_lxc)
  from listVirtualMachines_all_or_nothing
    [OF demo_client_host demo_client_token demo_client_base demo_pve3_qemu_url demo_pve3_lxc_url this]
  show ?thesis
    by (simp add: demo_pve3_qemu demo_pve3_lxc)
qed

subsection \<open>The requests an operation issues\<close>

lemma issued_io_bind:
  assumes "\<forall>r \<in> set (snd m). Q r" and "\<And>v. \<forall>r \<in> set (snd (f v)). Q r"
  shows "\<forall>r \<in> set (snd (io_bind m f)). Q r"
proof (cases "fst m")
  case (Inl e)
  with assms(1) show ?thesis by (simp add: snd_io_bind_Inl)
next
  case (Inr v)
  with assms(1) assms(2) [of v] show ?thesis by (auto simp add: snd_io_bind_Inr)
qed

lemma issued_requestJson:
  assumes "\<And>u m p. Q (requestOptions c u m p)"
  shows "\<forall>r \<in> set (snd (requestJson P c parse u m body)). Q r"
  using assms by (simp add: snd_requestJson)

lemma issued_by_reads:
  assumes "\<And>u m p. Q (requestOptions c u m p)"
  shows "\<forall>r \<in> set (snd (listNodes P c)). Q r"
    and "\<forall>r \<in> set (snd (listVirtualMachines P c node)). Q r"
    and "\<forall>r \<in> set (snd (getVirtualMachineDetails P c node type vmId)). Q r"
    and "\<forall>r \<in> set (snd (listSnapshots P c node type vmId)). Q r"
proof -
  note rq = issued_requestJson [of Q c, OF assms]
  show "\<forall>r \<in> set (snd (listNodes P c)). Q r"
    unfolding listNodes_def
    by (cases "host c = [] \<or> apiToken c = []"; simp; intro issued_io_bind rq; simp)
  show "\<forall>r \<in> set (snd (getVirtualMachineDetails P c node type vmId)). Q r"
    unfolding getVirtualMachineDetails_def normalizedBaseUrl_def
    by (cases "host c = [] \<or> apiToken c = []"; simp; intro issued_io_bind rq; simp)
  show "\<forall>r \<in> set (snd (listSnapshots P c node type vmId)). Q r"
    unfolding listSnapshots_def normalizedBaseUrl_def
    by (intro issued_io_bind rq; simp)
  have pair: "\<forall>r \<in> set (snd (case url_rel P l b of
                  None \<Rightarrow> (Inl (TypeError ''Invalid URL''), snd (requestJson P c (parse_vms P) uq GET None))
                | Some lxcUrl \<Rightarrow>
                    io_bind (promise_all (sf lxcUrl) (requestJson P c (parse_vms P) uq GET None)
                               (requestJson P c (parse_vms P) lxcUrl GET None)) (k lxcUrl))). Q r"
    if "\<And>u v. snd (k u v) = []" for l b uq sf and k :: "url \<Rightarrow> _ \<Rightarrow> ProxmoxVm list io"
  proof (cases "url_rel P l b")
    case None
    then show ?thesis by (simp add: snd_requestJson assms)
  next
    case (Some lxcUrl)
    then show ?thesis
      by (simp, intro issued_io_bind) (simp_all add: snd_requestJson assms that)
  qed
  show "\<forall>r \<in> set (snd (listVirtualMachines P c node)). Q r"
    unfolding listVirtualMachines_def Let_def
    by (cases "host c = [] \<or> apiToken c = []"; simp; intro issued_io_bind pair; simp add: split_def)
qed

lemma issued_by_actions:
  assumes "\<And>u m p. Q (requestOptions c u m p)"
  shows "\<forall>r \<in> set (snd (startVirtualMachine P c node type vmId)). Q r"
    and "\<forall>r \<in> set (snd (stopVirtualMachine P c node type vmId)). Q r"
    and "\<forall>r \<in> set (snd (restartVirtualMachine P c node type vmId)). Q r"
    and "\<forall>r \<in> set (snd (createSnapshot P c node type vmId name)). Q r"
    and "\<forall>r \<in> set (snd (deleteSnapshot P c node type vmId name)). Q r"
    and "\<forall>r \<in> set (snd (restoreSnapshot P c node type vmId name)). Q r"
  unfolding startVirtualMachine_def stopVirtualMachine_def restartVirtualMachine_def
    createSnapshot_def deleteSnapshot_def restoreSnapshot_def normalizedBaseUrl_def
  by (intro issued_io_bind issued_requestJson [of Q c, OF assms]; simp)+

text \<open>
  C4: every request of every operation carries the options of the insecure flag: on a
  URL whose protocol is not \<open>http:\<close> certificate validation is switched off when the flag
  is set (in the request's own options and in its agent) and switched on when it is not;
  on an \<open>http:\<close> URL neither option is set, and the flag changes nothing in the request.
\<close>

theorem certificate_validation:
  "(\<forall>r \<in> set (snd (listNodes P c)) \<union> set (snd (listVirtualMachines P c node))
         \<union> set (snd (getVirtualMachineDetails P c node type vmId))
         \<union> set (snd (startVirtualMachine P c node type vmId))
         \<union> set (snd (stopVirtualMachine P c node type vmId))
         \<union> set (snd (restartVirtualMachine P c node type vmId))
         \<union> set (snd (listSnapshots P c node type vmId))
         \<union> set (snd (createSnapshot P c node type vmId name))
         \<union> set (snd (deleteSnapshot P c node type vmId name))
         \<union> set (snd (restoreSnapshot P c node type vmId name)).
      if url_protocol (req_url r) = ''http:''
      then req_rejectUnauthorized r = None \<and> req_agent r = None
      else if allowInsecure c
      then req_rejectUnauthorized r = Some False
           \<and> req_agent r = Some \<lparr> agent_rejectUnauthorized = False \<rparr>
      else req_rejectUnauthorized r = Some True \<and> req_agent r = None)
   \<and> (url_protocol u = ''http:'' \<longrightarrow>
        requestOptions (c\<lparr> allowInsecure := True \<rparr>) u m p
          = requestOptions (c\<lparr> allowInsecure := False \<rparr>) u m p)"
proof -
  let ?Q = "\<lambda>r. if url_protocol (req_url r) = ''http:''
      then req_rejectUnauthorized r = None \<and> req_agent r = None
      else if allowInsecure c
      then req_rejectUnauthorized r = Some False
           \<and> req_agent r = Some \<lparr> agent_rejectUnauthorized = False \<rparr>
      else req_rejectUnauthorized r = Some True \<and> req_agent r = None"
  have opts: "?Q (requestOptions c u m p)" for u m p
    by (simp add: requestOptions_def useHttps_def Let_def)
  have flag: "url_protocol u = ''http:'' \<longrightarrow>
        requestOptions (c\<lparr> allowInsecure := True \<rparr>) u m p
          = requestOptions (c\<lparr> allowInsecure := False \<rparr>) u m p"
    by (simp add: requestOptions_def useHttps_def Let_def)
  note reads = issued_by_reads [where Q = ?Q and c = c, OF opts]
  note actions = issued_by_actions [where Q = ?Q and c = c, OF opts]
  have "\<forall>r \<in> set (snd (listNodes P c)) \<union> set (snd (listVirtualMachines P c node))
         \<union> set (snd (getVirtualMachineDetails P c node type vmId))
         \<union> set (snd (startVirtualMachine P c node type vmId))
         \<union> set (snd (stopVirtualMachine P c node type vmId))
         \<union> set (snd (restartVirtualMachine P c node type vmId))
         \<union> set (snd (listSnapshots P c node type vmId))
         \<union> set (snd (createSnapshot P c node type vmId name))
         \<union> set (snd (deleteSnapshot P c node type vmId name))
         \<union> set (snd (restoreSnapshot P c node type vmId name)). ?Q r"
    unfolding ball_Un by (intro conjI reads actions)
  with flag show ?thesis by (rule conjI [rotated])
qed

theorem certificate_validation_witness:
  "allowInsecure insecure_client
   \<and> req_rejectUnauthorized (requestOptions insecure_client (demo_at ''api2/json/nodes'') GET None)
       = Some False
   \<and> req_agent (requestOptions insecure_client (demo_at ''api2/json/nodes'') GET None)
       = Some \<lparr> agent_rejectUnauthorized = False \<rparr>
   \<and> requestOptions insecure_client (demo_at ''api2/json/nodes'') GET None
       \<in> set (snd (listNodes demo insecure_client))"
proof -
  let ?r = "requestOptions insecure_client (demo_at ''api2/json/nodes'') GET None"
  have flag: "allowInsecure insecure_client" by code_simp
  have scheme: "url_protocol (req_url ?r) \<noteq> ''http:''" by code_simp
  have "?r \<in> set (snd (listNodes demo insecure_client)) \<union> set (snd (listVirtualMachines demo insecure_client ''pve1''))
         \<union> set (snd (getVirtualMachineDetails demo insecure_client ''pve1'' Qemu 100))
         \<union> set (snd (startVirtualMachine demo insecure_client ''pve1'' Qemu 100))
         \<union> set (snd (stopVirtualMachine demo insecure_client ''pve1'' Qemu 100))
         \<union> set (snd (restartVirtualMachine demo insecure_client ''pve1'' Qemu 100))
         \<union> set (snd (listSnapshots demo insecure_client ''pve1'' Qemu 100))
         \<union> set (snd (createSnapshot demo insecure_client ''pve1'' Qemu 100 ''nightly''))
         \<union> set (snd (deleteSnapshot demo insecure_client ''pve1'' Qemu 100 ''nightly''))
         \<union> set (snd (restoreSnapshot demo insecure_client ''pve1'' Qemu 100 ''nightly''))"
    by (simp add: demo_insecure_request)
  with certificate_validation [of demo insecure_client "''pve1''" Qemu 100 "''nightly''"]
  have "if url_protocol (req_url ?r) = ''http:''
      then req_rejectUnauthorized ?r = None \<and> req_agent ?r = None
      else if allowInsecure insecure_client
      then req_rejectUnauthorized ?r = Some False
           \<and> req_agent ?r = Some \<lparr> agent_rejectUnauthorized = False \<rparr>
      else req_rejectUnauthorized ?r = Some True \<and> req_agent ?r = None"
    by blast
  with flag scheme show ?thesis by (simp add: demo_insecure_request)
qed

subsection \<open>Failures of a request\<close>

lemma api_error_message:
  "\<exists>msg. api_error P (Some n) body = Error msg \<and> sublist (number_text P n) msg \<and> sublist body msg"
proof -
  let ?msg = "''Proxmox API error '' @ number_text P n @ '': '' @ body"
  have "sublist (number_text P n) ?msg"
    by (rule sublist_appendI)
  moreover have "sublist body ?msg"
    using sublist_append_leftI [of body "''Proxmox API error '' @ number_text P n @ '': ''"] by simp
  ultimately show ?thesis by (simp add: api_error_def)
qed

lemma requestJson_protocol_error:
  assumes "send P (requestOptions c u m (payload_of body)) = Response (Some n) chunks"
    and "n < 200 \<or> 300 \<le> n"
  shows "fst (requestJson P c parse u m body) = Inl (api_error P (Some n) (concat chunks))"
  using assms by (auto simp add: requestJson_def Let_def status_rejected_def foldl_append_concat)

lemma requestJson_decode_error:
  assumes "send P (requestOptions c u m (payload_of body)) = Response (Some n) chunks"
    and "200 \<le> n" and "n < 300" and "parse (concat chunks) = None"
  shows "fst (requestJson P c parse u m body) = Inl SyntaxError"
  using assms by (simp add: requestJson_def Let_def status_rejected_def foldl_append_concat)

lemma passes_failure_on_requestJson:
  "passes_failure_on P parse (requestJson P c parse u m body)"
  using api_error_message
  by (auto simp add: snd_requestJson requestJson_protocol_error requestJson_decode_error)

lemma passes_failure_on_bind:
  assumes "passes_failure_on P parse m" and "\<And>v. passes_failure_on P parse (f v)"
  shows "passes_failure_on P parse (io_bind m f)"
proof (cases "fst m")
  case (Inl e)
  with assms(1) show ?thesis by (simp add: snd_io_bind_Inl fst_io_bind_Inl)
next
  case (Inr v)
  have "\<forall>r \<in> set (snd m). \<forall>n chunks. send P r = Response (Some n) chunks \<longrightarrow>
          \<not> (n < 200 \<or> 300 \<le> n) \<and> \<not> (200 \<le> n \<and> n < 300 \<and> parse (concat chunks) = None)"
    using assms(1) Inr by fastforce
  with assms(2) [of v] Inr show ?thesis
    by (simp add: snd_io_bind_Inr fst_io_bind_Inr ball_Un) fastforce
qed

lemma passes_failure_on_silent:
  assumes "snd X = []"
  shows "passes_failure_on P parse X"
  using assms by simp

lemma passes_failure_on_reads:
  shows "passes_failure_on P (parse_nodes P) (listNodes P c)"
    and "passes_failure_on P (parse_detail P) (getVirtualMachineDetails P c node type vmId)"
    and "passes_failure_on P (parse_snapshots P) (listSnapshots P c node type vmId)"
proof -
  show "passes_failure_on P (parse_nodes P) (listNodes P c)"
    unfolding listNodes_def
    by (cases "host c = [] \<or> apiToken c = []"; simp only: if_True if_False;
        (intro passes_failure_on_bind passes_failure_on_requestJson)?; simp)
  show "passes_failure_on P (parse_detail P) (getVirtualMachineDetails P c node type vmId)"
    unfolding getVirtualMachineDetails_def normalizedBaseUrl_def
    by (cases "host c = [] \<or> apiToken c = []"; simp only: if_True if_False;
        (intro passes_failure_on_bind passes_failure_on_requestJson)?; simp)
  show "passes_failure_on P (parse_snapshots P) (listSnapshots P c node type vmId)"
    unfolding listSnapshots_def normalizedBaseUrl_def
    by (intro passes_failure_on_bind passes_failure_on_requestJson; simp)
qed

lemma passes_failure_on_actions:
  shows "passes_failure_on P (parse_any P) (startVirtualMachine P c node type vmId)"
    and "passes_failure_on P (parse_any P) (stopVirtualMachine P c node type vmId)"
    and "passes_failure_on P (parse_any P) (restartVirtualMachine P c node type vmId)"
    and "passes_failure_on P (parse_any P) (createSnapshot P c node type vmId name)"
    and "passes_failure_on P (parse_any P) (deleteSnapshot P c node type vmId name)"
    and "passes_failure_on P (parse_any P) (restoreSnapshot P c node type vmId name)"
  unfolding startVirtualMachine_def stopVirtualMachine_def restartVirtualMachine_def
    createSnapshot_def deleteSnapshot_def restoreSnapshot_def normalizedBaseUrl_def
  by (intro passes_failure_on_bind passes_failure_on_requestJson; simp)+

lemma promise_all_first_rejected:
  assumes "fst p = Inl e"
  shows "fst (promise_all sf p q) =
           (case fst q of Inl e' \<Rightarrow> if sf then Inl e' else Inl e | Inr v \<Rightarrow> Inl e)"
  using assms by (cases "fst q") (simp_all add: promise_all_def)

lemma promise_all_second_rejected:
  assumes "fst q = Inl e'"
  shows "fst (promise_all sf p q) =
           (case fst p of Inl e \<Rightarrow> if sf then Inl e' else Inl e | Inr v \<Rightarrow> Inl e')"
  using assms by (cases "fst p") (simp_all add: promise_all_def)

lemma listVirtualMachines_first_rejected:
  assumes "host c \<noteq> []" and "apiToken c \<noteq> []"
    and "url_new P (slashed_host c) = Some b"
    and "url_rel P (''api2/json/nodes/'' @ encodeURIComponent node @ ''/qemu'') b = Some uq"
    and "url_rel P (''api2/json/nodes/'' @ encodeURIComponent node @ ''/lxc'') b = Some ul"
    and "fst (requestJson P c (parse_vms P) uq GET None) = Inl e"
  shows "fst (listVirtualMachines P c node) =
           (case fst (requestJson P c (parse_vms P) ul GET None) of
              Inl e' \<Rightarrow>
                if second_settles_first P (requestOptions c uq GET None) (requestOptions c ul GET None)
                then Inl e' else Inl e
            | Inr v \<Rightarrow> Inl e)"
  unfolding listVirtualMachines_settled [OF assms(1-5)] promise_all_first_rejected [OF assms(6)]
  by (simp split: sum.splits)

lemma listVirtualMachines_second_rejected:
  assumes "host c \<noteq> []" and "apiToken c \<noteq> []"
    and "url_new P (slashed_host c) = Some b"
    and "url_rel P (''api2/json/nodes/'' @ encodeURIComponent node @ ''/qemu'') b = Some uq"
    and "url_rel P (''api2/json/nodes/'' @ encodeURIComponent node @ ''/lxc'') b = Some ul"
    and "fst (requestJson P c (parse_vms P) ul GET None) = Inl e'"
  shows "fst (listVirtualMachines P c node) =
           (case fst (requestJson P c (parse_vms P) uq GET None) of
              Inl e \<Rightarrow>
                if second_settles_first P (requestOptions c uq GET None) (requestOptions c ul GET None)
                then Inl e' else Inl e
            | Inr v \<Rightarrow> Inl e')"
  unfolding listVirtualMachines_settled [OF assms(1-5)] promise_all_second_rejected [OF assms(6)]
  by (simp split: sum.splits)

lemma passes_failure_on_listVirtualMachines:
  assumes "host c \<noteq> []" and "apiToken c \<noteq> []"
    and "url_new P (slashed_host c) = Some b"
    and "url_rel P (''api2/json/nodes/'' @ encodeURIComponent node @ ''/qemu'') b = Some uq"
    and "url_rel P (''api2/json/nodes/'' @ encodeURIComponent node @ ''/lxc'') b = Some ul"
  shows "passes_failure_on_unless P c (listVirtualMachines P c node) uq
           (requestJson P c (parse_vms P) ul GET None)
           (second_settles_first P (requestOptions c uq GET None) (requestOptions c ul GET None))"
    and "passes_failure_on_unless P c (listVirtualMachines P c node) ul
           (requestJson P c (parse_vms P) uq GET None)
           (\<not> second_settles_first P (requestOptions c uq GET None) (requestOptions c ul GET None))"
proof -
  let ?sf = "second_settles_first P (requestOptions c uq GET None) (requestOptions c ul GET None)"
  note q = listVirtualMachines_first_rejected [OF assms]
  note l = listVirtualMachines_second_rejected [OF assms]
  have none: "payload_of None = None" by (simp add: payload_of_def)
  note pe = requestJson_protocol_error [where body = None and P = P and c = c and m = GET
      and parse = "parse_vms P", unfolded none]
  note de = requestJson_decode_error [where body = None and P = P and c = c and m = GET
      and parse = "parse_vms P", unfolded none]
  show "passes_failure_on_unless P c (listVirtualMachines P c node) uq
           (requestJson P c (parse_vms P) ul GET None) ?sf"
  proof (intro allI impI conjI)
    fix n chunks
    assume r: "send P (requestOptions c uq GET None) = Response (Some n) chunks"
    {
      assume "n < 200 \<or> 300 \<le> n"
      note rej = q [OF pe [OF r this]]
      {
        assume "\<not> (?sf \<and> isl (fst (requestJson P c (parse_vms P) ul GET None)))"
        with rej have "fst (listVirtualMachines P c node) = Inl (api_error P (Some n) (concat chunks))"
          by (auto split: sum.splits)
        with api_error_message [of P n "concat chunks"]
        show "\<exists>msg. fst (listVirtualMachines P c node) = Inl (Error msg)
                \<and> sublist (number_text P n) msg \<and> sublist (concat chunks) msg"
          by auto
      }
      {
        fix e assume "?sf \<and> fst (requestJson P c (parse_vms P) ul GET None) = Inl e"
        with rej show "fst (listVirtualMachines P c node) = Inl e" by simp
      }
    }
    {
      assume "200 \<le> n \<and> n < 300 \<and> parse_vms P (concat chunks) = None"
      then have "fst (requestJson P c (parse_vms P) uq GET None) = Inl SyntaxError"
        using de [OF r] by blast
      note rej = q [OF this]
      {
        assume "\<not> (?sf \<and> isl (fst (requestJson P c (parse_vms P) ul GET None)))"
        with rej show "fst (listVirtualMachines P c node) = Inl SyntaxError"
          by (auto split: sum.splits)
      }
      {
        fix e assume "?sf \<and> fst (requestJson P c (parse_vms P) ul GET None) = Inl e"
        with rej show "fst (listVirtualMachines P c node) = Inl e" by simp
      }
    }
  qed
  show "passes_failure_on_unless P c (listVirtualMachines P c node) ul
           (requestJson P c (parse_vms P) uq GET None) (\<not> ?sf)"
  proof (intro allI impI conjI)
    fix n chunks
    assume r: "send P (requestOptions c ul GET None) = Response (Some n) chunks"
    {
      assume "n < 200 \<or> 300 \<le> n"
      note rej = l [OF pe [OF r this]]
      {
        assume "\<not> (\<not> ?sf \<and> isl (fst (requestJson P c (parse_vms P) uq GET None)))"
        with rej have "fst (listVirtualMachines P c node) = Inl (api_error P (Some n) (concat chunks))"
          by (auto split: sum.splits)
        with api_error_message [of P n "concat chunks"]
        show "\<exists>msg. fst (listVirtualMachines P c node) = Inl (Error msg)
                \<and> sublist (number_text P n) msg \<and> sublist (concat chunks) msg"
          by auto
      }
      {
        fix e assume "\<not> ?sf \<and> fst (requestJson P c (parse_vms P) uq GET None) = Inl e"
        with rej show "fst (listVirtualMachines P c node) = Inl e" by simp
      }
    }
    {
      assume "200 \<le> n \<and> n < 300 \<and> parse_vms P (concat chunks) = None"
      then have "fst (requestJson P c (parse_vms P) ul GET None) = Inl SyntaxError"
        using de [OF r] by blast
      note rej = l [OF this]
      {
        assume "\<not> (\<not> ?sf \<and> isl (fst (requestJson P c (parse_vms P) uq GET None)))"
        with rej show "fst (listVirtualMachines P c node) = Inl SyntaxError"
          by (auto split: sum.splits)
      }
      {
        fix e assume "\<not> ?sf \<and> fst (requestJson P c (parse_vms P) uq GET None) = Inl e"
        with rej show "fst (listVirtualMachines P c node) = Inl e" by simp
      }
    }
  qed
qed

text \<open>
  C5: for every response that an operation receives, a status that is not 2xx rejects the
  operation with an error whose message contains the status code, as the language prints
  a number (in decimal digits, for a safe integer), and the text of the body, and a 2xx status with a body that \<open>JSON.parse\<close> does not accept rejects it
  with the parser's \<open>SyntaxError\<close>, which is no such protocol error. This holds for
  \<open>requestJson\<close> and for the nine operations that issue one request. The two requests of
  \<open>listVirtualMachines\<close> are joined by \<open>Promise.all\<close>: the failure of a response rejects
  the operation in the same way, unless the sibling request fails too and settles first,
  and then the operation is rejected with the sibling's failure.
\<close>

theorem failures_reach_the_caller:
  "passes_failure_on P parse (requestJson P c parse u m body)
   \<and> passes_failure_on P (parse_nodes P) (listNodes P c)
   \<and> passes_failure_on P (parse_detail P) (getVirtualMachineDetails P c node type vmId)
   \<and> passes_failure_on P (parse_any P) (startVirtualMachine P c node type vmId)
   \<and> passes_failure_on P (parse_any P) (stopVirtualMachine P c node type vmId)
   \<and> passes_failure_on P (parse_any P) (restartVirtualMachine P c node type vmId)
   \<and> passes_failure_on P (parse_snapshots P) (listSnapshots P c node type vmId)
   \<and> passes_failure_on P (parse_any P) (createSnapshot P c node type vmId name)
   \<and> passes_failure_on P (parse_any P) (deleteSnapshot P c node type vmId name)
   \<and> passes_failure_on P (parse_any P) (restoreSnapshot P c node type vmId name)
   \<and> (host c \<noteq> [] \<and> apiToken c \<noteq> []
        \<and> url_new P (slashed_host c) = Some b
        \<and> url_rel P (''api2/json/nodes/'' @ encodeURIComponent node @ ''/qemu'') b = Some uq
        \<and> url_rel P (''api2/json/nodes/'' @ encodeURIComponent node @ ''/lxc'') b = Some ul \<longrightarrow>
        passes_failure_on_unless P c (listVirtualMachines P c node) uq
          (requestJson P c (parse_vms P) ul GET None)
          (second_settles_first P (requestOptions c uq GET None) (requestOptions c ul GET None))
        \<and> passes_failure_on_unless P c (listVirtualMachines P c node) ul
          (requestJson P c (parse_vms P) uq GET None)
          (\<not> second_settles_first P (requestOptions c uq GET None) (requestOptions c ul GET None)))
   \<and> (\<forall>statusCode responseBody. api_error P statusCode responseBody \<noteq> SyntaxError)
   \<and> (\<forall>i. \<bar>i\<bar> < 2 ^ 53 \<longrightarrow> number_text P i = show_int i)"
proof (intro conjI)
  show "host c \<noteq> [] \<and> apiToken c \<noteq> []
        \<and> url_new P (slashed_host c) = Some b
        \<and> url_rel P (''api2/json/nodes/'' @ encodeURIComponent node @ ''/qemu'') b = Some uq
        \<and> url_rel P (''api2/json/nodes/'' @ encodeURIComponent node @ ''/lxc'') b = Some ul \<longrightarrow>
        passes_failure_on_unless P c (listVirtualMachines P c node) uq
          (requestJson P c (parse_vms P) ul GET None)
          (second_settles_first P (requestOptions c uq GET None) (requestOptions c ul GET None))
        \<and> passes_failure_on_unless P c (listVirtualMachines P c node) ul
          (requestJson P c (parse_vms P) uq GET None)
          (\<not> second_settles_first P (requestOptions c uq GET None) (requestOptions c ul GET None))"
  proof
    assume h: "host c \<noteq> [] \<and> apiToken c \<noteq> []
        \<and> url_new P (slashed_host c) = Some b
        \<and> url_rel P (''api2/json/nodes/'' @ encodeURIComponent node @ ''/qemu'') b = Some uq
        \<and> url_rel P (''api2/json/nodes/'' @ encodeURIComponent node @ ''/lxc'') b = Some ul"
    then have "host c \<noteq> []" and "apiToken c \<noteq> []" and "url_new P (slashed_host c) = Some b"
      and "url_rel P (''api2/json/nodes/'' @ encodeURIComponent node @ ''/qemu'') b = Some uq"
      and "url_rel P (''api2/json/nodes/'' @ encodeURIComponent node @ ''/lxc'') b = Some ul"
      by simp_all
    from passes_failure_on_listVirtualMachines [OF this]
    show "passes_failure_on_unless P c (listVirtualMachines P c node) uq
          (requestJson P c (parse_vms P) ul GET None)
          (second_settles_first P (requestOptions c uq GET None) (requestOptions c ul GET None))
        \<and> passes_failure_on_unless P c (listVirtualMachines P c node) ul
          (requestJson P c (parse_vms P) uq GET None)
          (\<not> second_settles_first P (requestOptions c uq GET None) (requestOptions c ul GET None))"
      by (rule conjI)
  qed
  show "\<forall>statusCode responseBody. api_error P statusCode responseBody \<noteq> SyntaxError"
    by (simp add: api_error_def)
  show "\<forall>i. \<bar>i\<bar> < 2 ^ 53 \<longrightarrow> number_text P i = show_int i"
    by (simp add: number_text_def)
qed (rule passes_failure_on_requestJson passes_failure_on_reads passes_failure_on_actions)+

lemma demo_stop_request:
  "snd (stopVirtualMachine demo demo_client ''pve3'' Qemu 100) =
     [requestOptions demo_client (demo_at ''api2/json/nodes/pve3/qemu/100/status/stop'') POST None]"
  by code_simp

lemma demo_stop_response:
  "send demo (requestOptions demo_client (demo_at ''api2/json/nodes/pve3/qemu/100/status/stop'') POST None)
     = Response (Some 500) [''permission '', ''denied'']"
  by code_simp

lemma demo_broken_request:
  "snd (getVirtualMachineDetails demo demo_client ''pve4'' Qemu 100) =
     [requestOptions demo_client (demo_at ''api2/json/nodes/pve4/qemu/100/status/current'') GET None]"
  by code_simp

lemma demo_broken_response:
  "send demo (requestOptions demo_client (demo_at ''api2/json/nodes/pve4/qemu/100/status/current'') GET None)
     = Response (Some 200) [''not-json'']"
  by code_simp

lemma demo_pve3_lxc_response:
  "send demo (requestOptions demo_client (demo_at ''api2/json/nodes/pve3/lxc'') GET None)
     = Response (Some 500) [''permission '', ''denied'']"
  by code_simp

theorem failures_reach_the_caller_witness:
  "(\<exists>msg. fst (stopVirtualMachine demo demo_client ''pve3'' Qemu 100) = Inl (Error msg)
      \<and> sublist ''500'' msg \<and> sublist ''permission denied'' msg)
   \<and> fst (getVirtualMachineDetails demo demo_client ''pve4'' Qemu 100) = Inl SyntaxError
   \<and> (\<exists>msg. fst (listVirtualMachines demo demo_client ''pve3'') = Inl (Error msg)
      \<and> sublist ''500'' msg \<and> sublist ''permission denied'' msg)"
proof -
  note all = failures_reach_the_caller [where P = demo and c = demo_client and type = Qemu
      and vmId = 100 and b = demo_base and uq = "demo_at ''api2/json/nodes/pve3/qemu''"
      and ul = "demo_at ''api2/json/nodes/pve3/lxc''"]
  have code: "number_text demo 500 = ''500''" and body: "concat [''permission '', ''denied''] = ''permission denied''"
    by code_simp+
  have "passes_failure_on demo (parse_any demo) (stopVirtualMachine demo demo_client ''pve3'' Qemu 100)"
    by (rule all [where node = "''pve3''", THEN conjunct2, THEN conjunct2, THEN conjunct2, THEN conjunct2, THEN conjunct1])
  with demo_stop_response
  have stop: "\<exists>msg. fst (stopVirtualMachine demo demo_client ''pve3'' Qemu 100) = Inl (Error msg)
      \<and> sublist ''500'' msg \<and> sublist ''permission denied'' msg"
    unfolding demo_stop_request by (fastforce simp add: code)
  have "passes_failure_on demo (parse_detail demo)
          (getVirtualMachineDetails demo demo_client ''pve4'' Qemu 100)"
    by (rule all [where node = "''pve4''", THEN conjunct2, THEN conjunct2, THEN conjunct1])
  moreover have "parse_detail demo (concat [''not-json'']) = None" by code_simp
  ultimately have broken: "fst (getVirtualMachineDetails demo demo_client ''pve4'' Qemu 100)
      = Inl SyntaxError"
    using demo_broken_response unfolding demo_broken_request by fastforce
  have "passes_failure_on_unless demo demo_client (listVirtualMachines demo demo_client ''pve3'')
          (demo_at ''api2/json/nodes/pve3/lxc'')
          (requestJson demo demo_client (parse_vms demo) (demo_at ''api2/json/nodes/pve3/qemu'') GET None)
          (\<not> second_settles_first demo
               (requestOptions demo_client (demo_at ''api2/json/nodes/pve3/qemu'') GET None)
               (requestOptions demo_client (demo_at ''api2/json/nodes/pve3/lxc'') GET None))"
    using all [where node = "''pve3''", THEN conjunct2, THEN conjunct2, THEN conjunct2, THEN conjunct2, THEN conjunct2, THEN conjunct2, THEN conjunct2, THEN conjunct2, THEN conjunct2, THEN conjunct2, THEN conjunct1]
      demo_client_host demo_client_token demo_client_base demo_pve3_qemu_url demo_pve3_lxc_url
    by blast
  with demo_pve3_lxc_response demo_pve3_qemu
  have guests: "\<exists>msg. fst (listVirtualMachines demo demo_client ''pve3'') = Inl (Error msg)
      \<and> sublist ''500'' msg \<and> sublist ''permission denied'' msg"
    by (fastforce simp add: code)
  from stop broken guests show ?thesis by blast
qed

subsection \<open>Snapshots\<close>

text \<open>
  C6: the list of \<open>listSnapshots\<close> has no entry named \<open>current\<close>, whatever the payload;
  every entry with another, non-empty name gives a record with that name whose
  \<open>createdAt\<close> is the entry's \<open>snaptime\<close>, or null when that is absent.
\<close>

theorem listSnapshots_without_current:
  assumes "url_new P (slashed_host c) = Some b"
    and "url_rel P (guest_path P node type vmId @ ''/snapshot'') b = Some u"
    and "fst (requestJson P c (parse_snapshots P) u GET None) = Inr d"
  shows "\<exists>snaps. fst (listSnapshots P c node type vmId) = Inr snaps
           \<and> ''current'' \<notin> snap_name ` set snaps
           \<and> (\<forall>e \<in> set (data_or_empty d). \<forall>n.
                 se_name e = Some n \<and> n \<noteq> [] \<and> n \<noteq> ''current'' \<longrightarrow>
                   \<lparr> snap_name = n, snap_createdAt = se_snaptime e \<rparr> \<in> set snaps)"
proof -
  let ?snaps = "map mapSnapshot (filter keep_snapshot (data_or_empty d))"
  have res: "fst (listSnapshots P c node type vmId) = Inr ?snaps"
    by (rule listSnapshots_fulfilled [OF assms])
  have kept: "snap_name (mapSnapshot e) \<noteq> ''current''" if "keep_snapshot e" for e
    using that by (cases "se_name e") (simp_all add: keep_snapshot_def mapSnapshot_def truthy_def)
  have cur: "''current'' \<notin> snap_name ` set ?snaps"
  proof
    assume "''current'' \<in> snap_name ` set ?snaps"
    then obtain e where "keep_snapshot e" and "snap_name (mapSnapshot e) = ''current''"
      by auto
    with kept show False by blast
  qed
  have "\<lparr> snap_name = n, snap_createdAt = se_snaptime e \<rparr> \<in> set ?snaps"
    if "e \<in> set (data_or_empty d)" and "se_name e = Some n \<and> n \<noteq> [] \<and> n \<noteq> ''current''" for e n
  proof -
    from that(2) have "keep_snapshot e" and "mapSnapshot e = \<lparr> snap_name = n, snap_createdAt = se_snaptime e \<rparr>"
      by (simp_all add: keep_snapshot_def mapSnapshot_def truthy_def)
    with that(1) show ?thesis by force
  qed
  with res cur show ?thesis by blast
qed

theorem listSnapshots_without_current_witness:
  "\<exists>snaps. fst (listSnapshots demo demo_client ''pve1'' Qemu 100) = Inr snaps
     \<and> ''current'' \<notin> snap_name ` set snaps
     \<and> \<lparr> snap_name = ''before-upgrade'', snap_createdAt = Some 1700000000 \<rparr> \<in> set snaps
     \<and> \<lparr> snap_name = ''nightly'', snap_createdAt = None \<rparr> \<in> set snaps"
proof -
  let ?d = "Some [\<lparr> se_name = Some ''current'', se_snaptime = None \<rparr>,
                  \<lparr> se_name = Some ''before-upgrade'', se_snaptime = Some 1700000000 \<rparr>,
                  \<lparr> se_name = Some [], se_snaptime = None \<rparr>,
                  \<lparr> se_name = None, se_snaptime = Some 5 \<rparr>,
                  \<lparr> se_name = Some ''nightly'', se_snaptime = None \<rparr>]"
  from listSnapshots_without_current [OF demo_client_base demo_snapshot_url demo_snapshots]
  obtain snaps where res: "fst (listSnapshots demo demo_client ''pve1'' Qemu 100) = Inr snaps"
    and cur: "''current'' \<notin> snap_name ` set snaps"
    and each: "\<forall>e \<in> set (data_or_empty ?d). \<forall>n.
                 se_name e = Some n \<and> n \<noteq> [] \<and> n \<noteq> ''current'' \<longrightarrow>
                   \<lparr> snap_name = n, snap_createdAt = se_snaptime e \<rparr> \<in> set snaps"
    by blast
  let ?e1 = "\<lparr> se_name = Some ''before-upgrade'', se_snaptime = Some 1700000000 \<rparr>"
  let ?e2 = "\<lparr> se_name = Some ''nightly'', se_snaptime = None \<rparr>"
  have "?e1 \<in> set (data_or_empty ?d)" and "?e2 \<in> set (data_or_empty ?d)"
    by (simp_all add: data_or_empty_def)
  with each have "\<lparr> snap_name = ''before-upgrade'', snap_createdAt = se_snaptime ?e1 \<rparr> \<in> set snaps"
    and "\<lparr> snap_name = ''nightly'', snap_createdAt = se_snaptime ?e2 \<rparr> \<in> set snaps"
    by fastforce+
  with res cur show ?thesis by auto
qed

subsection \<open>Status normalisation\<close>

text \<open>
  C7: a node entry whose status is not \<open>online\<close> or \<open>offline\<close> (the empty string and an
  absent field included) is reported by \<open>listNodes\<close> with status unknown; a guest entry
  whose status is not \<open>running\<close> or \<open>stopped\<close> gives a record of
  \<open>listVirtualMachines\<close> with status unknown.
\<close>

theorem unknown_status:
  assumes "host c \<noteq> []" and "apiToken c \<noteq> []"
    and "url_new P (slashed_host c) = Some b"
    and "url_rel P ''api2/json/nodes'' b = Some un"
    and "fst (requestJson P c (parse_nodes P) un GET None) = Inr dn"
    and "url_rel P (''api2/json/nodes/'' @ encodeURIComponent node @ ''/qemu'') b = Some uq"
    and "url_rel P (''api2/json/nodes/'' @ encodeURIComponent node @ ''/lxc'') b = Some ul"
    and "fst (requestJson P c (parse_vms P) uq GET None) = Inr dq"
    and "fst (requestJson P c (parse_vms P) ul GET None) = Inr dl"
  shows "\<exists>nodes vms.
           fst (listNodes P c) = Inr nodes
           \<and> length nodes = length (data_or_empty dn)
           \<and> (\<forall>i < length nodes.
                 ne_status (data_or_empty dn ! i) \<notin> {Some ''online'', Some ''offline''} \<longrightarrow>
                   node_status (nodes ! i) = UnknownNode)
           \<and> fst (listVirtualMachines P c node) = Inr vms
           \<and> (\<forall>e \<in> set (data_or_empty dq).
                 ve_status e \<notin> {Some ''running'', Some ''stopped''} \<longrightarrow>
                   mapVm P e Qemu node \<in> set vms \<and> vm_status (mapVm P e Qemu node) = UnknownVm)
           \<and> (\<forall>e \<in> set (data_or_empty dl).
                 ve_status e \<notin> {Some ''running'', Some ''stopped''} \<longrightarrow>
                   mapVm P e Lxc node \<in> set vms \<and> vm_status (mapVm P e Lxc node) = UnknownVm)
           \<and> normalizeStatus None = UnknownNode \<and> normalizeStatus (Some []) = UnknownNode"
proof -
  let ?nodes = "map mapNode (data_or_empty dn)"
  let ?vms = "array_sort compare_id
                (map (\<lambda>vm. mapVm P vm Qemu node) (data_or_empty dq) @
                 map (\<lambda>vm. mapVm P vm Lxc node) (data_or_empty dl))"
  have n: "fst (listNodes P c) = Inr ?nodes"
    by (rule listNodes_fulfilled [OF assms(1-5)])
  have nlen: "length ?nodes = length (data_or_empty dn)" by simp
  have nstat: "\<forall>i < length ?nodes.
                 ne_status (data_or_empty dn ! i) \<notin> {Some ''online'', Some ''offline''} \<longrightarrow>
                   node_status (?nodes ! i) = UnknownNode"
    by (simp add: mapNode_def normalizeStatus_def)
  have v: "fst (listVirtualMachines P c node) = Inr ?vms"
    by (rule listVirtualMachines_fulfilled [OF assms(1-3) assms(6-9)])
  have vstat: "vm_status (mapVm P e t node) = UnknownVm"
    if "ve_status e \<notin> {Some ''running'', Some ''stopped''}" for e t
    using that by (simp add: mapVm_def normalizeVmStatus_def)
  have q: "\<forall>e \<in> set (data_or_empty dq).
                 ve_status e \<notin> {Some ''running'', Some ''stopped''} \<longrightarrow>
                   mapVm P e Qemu node \<in> set ?vms \<and> vm_status (mapVm P e Qemu node) = UnknownVm"
    using vstat by (simp add: set_array_sort_compare_id)
  have l: "\<forall>e \<in> set (data_or_empty dl).
                 ve_status e \<notin> {Some ''running'', Some ''stopped''} \<longrightarrow>
                   mapVm P e Lxc node \<in> set ?vms \<and> vm_status (mapVm P e Lxc node) = UnknownVm"
    using vstat by (simp add: set_array_sort_compare_id)
  have e: "normalizeStatus None = UnknownNode \<and> normalizeStatus (Some []) = UnknownNode"
    by (simp add: normalizeStatus_def)
  from n nlen nstat v q l e show ?thesis by blast
qed

theorem unknown_status_witness:
  "\<exists>nodes vms.
     fst (listNodes demo demo_client) = Inr nodes
     \<and> length nodes = 4
     \<and> node_status (nodes ! 1) = UnknownNode
     \<and> node_status (nodes ! 2) = UnknownNode
     \<and> node_status (nodes ! 3) = UnknownNode
     \<and> fst (listVirtualMachines demo demo_client ''pve2'') = Inr vms
     \<and> \<lparr> vm_id = 7, vm_name = ''VM 7'', vm_status = UnknownVm, vm_type = Qemu,
          vm_node = ''pve2'' \<rparr> \<in> set vms"
proof -
  let ?dn = "Some [\<lparr> ne_node = Some ''pve1'', ne_status = Some ''online'' \<rparr>,
                  \<lparr> ne_node = Some ''pve2'', ne_status = Some ''maintenance'' \<rparr>,
                  \<lparr> ne_node = Some ''pve3'', ne_status = None \<rparr>,
                  \<lparr> ne_node = None, ne_status = Some [] \<rparr>]"
  let ?q = "\<lparr> ve_vmid = Some 7, ve_name = None, ve_status = Some ''paused'' \<rparr>"
  from unknown_status
    [OF demo_client_host demo_client_token demo_client_base demo_nodes_url demo_nodes
      demo_pve2_qemu_url demo_pve2_lxc_url demo_pve2_qemu demo_pve2_lxc]
  obtain nodes vms where n: "fst (listNodes demo demo_client) = Inr nodes"
    and len: "length nodes = length (data_or_empty ?dn)"
    and st: "\<forall>i < length nodes.
                 ne_status (data_or_empty ?dn ! i) \<notin> {Some ''online'', Some ''offline''} \<longrightarrow>
                   node_status (nodes ! i) = UnknownNode"
    and v: "fst (listVirtualMachines demo demo_client ''pve2'') = Inr vms"
    and q: "\<forall>e \<in> set (data_or_empty (Some pve2_qemu)).
                 ve_status e \<notin> {Some ''running'', Some ''stopped''} \<longrightarrow>
                   mapVm demo e Qemu ''pve2'' \<in> set vms \<and> vm_status (mapVm demo e Qemu ''pve2'') = UnknownVm"
    by blast
  from len have len4: "length nodes = 4" by (simp add: data_or_empty_def)
  from st len4 have "ne_status (data_or_empty ?dn ! i) \<notin> {Some ''online'', Some ''offline''} \<Longrightarrow>
      node_status (nodes ! i) = UnknownNode" if "i < 4" for i
    using that by simp
  from this [of 1] this [of 2] this [of 3]
  have s: "node_status (nodes ! 1) = UnknownNode \<and> node_status (nodes ! 2) = UnknownNode
           \<and> node_status (nodes ! 3) = UnknownNode"
    by (simp add: data_or_empty_def)
  have "?q \<in> set (data_or_empty (Some pve2_qemu))"
    by (simp add: data_or_empty_def pve2_qemu_def)
  moreover have "ve_status ?q \<notin> {Some ''running'', Some ''stopped''}" by simp
  ultimately have "mapVm demo ?q Qemu ''pve2'' \<in> set vms" using q by blast
  moreover have "mapVm demo ?q Qemu ''pve2'' = \<lparr> vm_id = 7, vm_name = ''VM 7'', vm_status = UnknownVm,
      vm_type = Qemu, vm_node = ''pve2'' \<rparr>"
    by code_simp
  ultimately show ?thesis using n len4 s v by auto
qed

subsection \<open>Names of guests\<close>

text \<open>
  C8, as the specification states it, does not hold: the placeholder is not built from
  the type of the guest. In the scenario of the specification the nameless lxc guest 50 is
  called \<open>VM 50\<close>, and on the second node of the double the nameless qemu guest 7 is
  called \<open>VM 7\<close>: the word is \<open>VM\<close> for both types. Nor is it always built from the id of
  the record: the two records with id -1 are called \<open>VM unknown\<close>.
\<close>

theorem placeholder_not_from_type:
  "fst (listVirtualMachines demo demo_client ''pve1'') =
     Inr [\<lparr> vm_id = 50, vm_name = ''VM 50'', vm_status = Stopped, vm_type = Lxc, vm_node = ''pve1'' \<rparr>,
          \<lparr> vm_id = 100, vm_name = ''web'', vm_status = Running, vm_type = Qemu, vm_node = ''pve1'' \<rparr>]
   \<and> fst (listVirtualMachines demo demo_client ''pve2'') =
     Inr [\<lparr> vm_id = - 1, vm_name = ''VM unknown'', vm_status = UnknownVm, vm_type = Qemu, vm_node = ''pve2'' \<rparr>,
          \<lparr> vm_id = - 1, vm_name = ''VM unknown'', vm_status = Running, vm_type = Lxc, vm_node = ''pve2'' \<rparr>,
          \<lparr> vm_id = 7, vm_name = ''VM 7'', vm_status = UnknownVm, vm_type = Qemu, vm_node = ''pve2'' \<rparr>,
          \<lparr> vm_id = 7, vm_name = ''db'', vm_status = UnknownVm, vm_type = Qemu, vm_node = ''pve2'' \<rparr>,
          \<lparr> vm_id = 7, vm_name = ''ct'', vm_status = UnknownVm, vm_type = Lxc, vm_node = ''pve2'' \<rparr>]"
  by code_simp

text \<open>
  C8, amended: for a guest entry whose name is absent or blank (empty or white space
  only), the record of \<open>listVirtualMachines\<close> is named \<open>VM\<close> followed by a space and the
  \<open>vmid\<close> of the entry as the language prints a number, or the word \<open>unknown\<close> when the
  entry has no \<open>vmid\<close>; the word \<open>VM\<close> is the same for qemu and lxc guests. The record of
  \<open>getVirtualMachineDetails\<close> is named \<open>VM\<close> followed by the id asked for, printed in the
  same way. A number that is a safe integer, of magnitude below \<open>2^53\<close>, is printed as
  its decimal digits. So an lxc guest with id 50 and empty name is called \<open>VM 50\<close>.
\<close>

theorem default_guest_name:
  assumes "host c \<noteq> []" and "apiToken c \<noteq> []"
    and "url_new P (slashed_host c) = Some b"
    and "url_rel P (''api2/json/nodes/'' @ encodeURIComponent node @ ''/qemu'') b = Some uq"
    and "url_rel P (''api2/json/nodes/'' @ encodeURIComponent node @ ''/lxc'') b = Some ul"
    and "fst (requestJson P c (parse_vms P) uq GET None) = Inr dq"
    and "fst (requestJson P c (parse_vms P) ul GET None) = Inr dl"
    and "url_rel P (guest_path P node type vmId @ ''/status/current'') b = Some ud"
    and "fst (requestJson P c (parse_detail P) ud GET None) = Inr dd"
  shows "\<exists>vms det.
           fst (listVirtualMachines P c node) = Inr vms
           \<and> (\<forall>e \<in> set (data_or_empty dq).
                 (case ve_name e of None \<Rightarrow> True | Some s \<Rightarrow> trim s = []) \<longrightarrow>
                   mapVm P e Qemu node \<in> set vms
                   \<and> vm_name (mapVm P e Qemu node) =
                       ''VM '' @ (case ve_vmid e of None \<Rightarrow> ''unknown'' | Some i \<Rightarrow> number_text P i))
           \<and> (\<forall>e \<in> set (data_or_empty dl).
                 (case ve_name e of None \<Rightarrow> True | Some s \<Rightarrow> trim s = []) \<longrightarrow>
                   mapVm P e Lxc node \<in> set vms
                   \<and> vm_name (mapVm P e Lxc node) =
                       ''VM '' @ (case ve_vmid e of None \<Rightarrow> ''unknown'' | Some i \<Rightarrow> number_text P i))
           \<and> fst (getVirtualMachineDetails P c node type vmId) = Inr det
           \<and> ((case dd of None \<Rightarrow> True
                | Some e \<Rightarrow> (case de_name e of None \<Rightarrow> True | Some s \<Rightarrow> trim s = [])) \<longrightarrow>
                 det_name det = ''VM '' @ number_text P vmId)
           \<and> (\<forall>i. \<bar>i\<bar> < 2 ^ 53 \<longrightarrow> number_text P i = show_int i)"
proof -
  let ?vms = "array_sort compare_id
                (map (\<lambda>vm. mapVm P vm Qemu node) (data_or_empty dq) @
                 map (\<lambda>vm. mapVm P vm Lxc node) (data_or_empty dl))"
  let ?det = "mapDetails P dd node type vmId"
  have v: "fst (listVirtualMachines P c node) = Inr ?vms"
    by (rule listVirtualMachines_fulfilled [OF assms(1-7)])
  have d: "fst (getVirtualMachineDetails P c node type vmId) = Inr ?det"
    by (rule getVirtualMachineDetails_fulfilled [OF assms(1-3) assms(8,9)])
  have name: "vm_name (mapVm P e t node) =
                ''VM '' @ (case ve_vmid e of None \<Rightarrow> ''unknown'' | Some i \<Rightarrow> number_text P i)"
    if "case ve_name e of None \<Rightarrow> True | Some s \<Rightarrow> trim s = []" for e t
    using that by (simp add: mapVm_def trimmed_or_def split: option.splits)
  have q: "\<forall>e \<in> set (data_or_empty dq).
                 (case ve_name e of None \<Rightarrow> True | Some s \<Rightarrow> trim s = []) \<longrightarrow>
                   mapVm P e Qemu node \<in> set ?vms
                   \<and> vm_name (mapVm P e Qemu node) =
                       ''VM '' @ (case ve_vmid e of None \<Rightarrow> ''unknown'' | Some i \<Rightarrow> number_text P i)"
    using name by (simp add: set_array_sort_compare_id)
  have l: "\<forall>e \<in> set (data_or_empty dl).
                 (case ve_name e of None \<Rightarrow> True | Some s \<Rightarrow> trim s = []) \<longrightarrow>
                   mapVm P e Lxc node \<in> set ?vms
                   \<and> vm_name (mapVm P e Lxc node) =
                       ''VM '' @ (case ve_vmid e of None \<Rightarrow> ''unknown'' | Some i \<Rightarrow> number_text P i)"
    using name by (simp add: set_array_sort_compare_id)
  have dn: "(case dd of None \<Rightarrow> True
                | Some e \<Rightarrow> (case de_name e of None \<Rightarrow> True | Some s \<Rightarrow> trim s = [])) \<longrightarrow>
                 det_name ?det = ''VM '' @ number_text P vmId"
    by (simp add: mapDetails_def trimmed_or_def split: option.splits)
  have safe: "\<forall>i. \<bar>i\<bar> < 2 ^ 53 \<longrightarrow> number_text P i = show_int i"
    by (simp add: number_text_def)
  from v q l d dn safe show ?thesis by blast
qed

theorem default_guest_name_witness:
  "\<exists>vms det.
     fst (listVirtualMachines demo demo_client ''pve1'') = Inr vms
     \<and> \<lparr> vm_id = 50, vm_name = ''VM 50'', vm_status = Stopped, vm_type = Lxc, vm_node = ''pve1'' \<rparr>
         \<in> set vms
     \<and> fst (getVirtualMachineDetails demo demo_client ''pve1'' Lxc 50) = Inr det
     \<and> det_name det = ''VM 50''"
proof -
  let ?e = "\<lparr> ve_vmid = Some 50, ve_name = Some [], ve_status = Some ''stopped'' \<rparr>"
  let ?dd = "Some \<lparr> de_name = Some '' '', de_status = Some ''stopped'', de_uptime = Some 12,
                    de_cpu = None, de_mem = None, de_maxmem = None \<rparr>"
  from default_guest_name
    [OF demo_client_host demo_client_token demo_client_base demo_pve1_qemu_url demo_pve1_lxc_url
      demo_pve1_qemu demo_pve1_lxc demo_detail_url demo_detail]
  obtain vms det where v: "fst (listVirtualMachines demo demo_client ''pve1'') = Inr vms"
    and l: "\<forall>e \<in> set (data_or_empty (Some [?e])).
                 (case ve_name e of None \<Rightarrow> True | Some s \<Rightarrow> trim s = []) \<longrightarrow>
                   mapVm demo e Lxc ''pve1'' \<in> set vms
                   \<and> vm_name (mapVm demo e Lxc ''pve1'') =
                       ''VM '' @ (case ve_vmid e of None \<Rightarrow> ''unknown'' | Some i \<Rightarrow> number_text demo i)"
    and d: "fst (getVirtualMachineDetails demo demo_client ''pve1'' Lxc 50) = Inr det"
    and dn: "(case ?dd of None \<Rightarrow> True
                | Some e \<Rightarrow> (case de_name e of None \<Rightarrow> True | Some s \<Rightarrow> trim s = [])) \<longrightarrow>
                 det_name det = ''VM '' @ number_text demo 50"
    by blast
  have blank: "trim '' '' = []" and fifty: "number_text demo 50 = ''50''"
    by code_simp+
  have "trim [] = []" by code_simp
  with l have "mapVm demo ?e Lxc ''pve1'' \<in> set vms"
    by (simp add: data_or_empty_def)
  moreover have "mapVm demo ?e Lxc ''pve1'' =
      \<lparr> vm_id = 50, vm_name = ''VM 50'', vm_status = Stopped, vm_type = Lxc, vm_node = ''pve1'' \<rparr>"
    by code_simp
  moreover from dn blank fifty have "det_name det = ''VM 50''" by simp
  ultimately show ?thesis using v d by auto
qed

subsection \<open>Guests without an id\<close>

lemma count_unidentified:
  "length (filter (\<lambda>e. ve_vmid e = None) xs)
     \<le> length (filter (\<lambda>v. vm_id v = - 1) (map (\<lambda>vm. mapVm P vm type node) xs))"
  by (induction xs) (simp_all add: mapVm_def)

text \<open>
  C9: an entry of the qemu or lxc collection without a \<open>vmid\<close> still gives a record: its
  id is -1 and, when its name is blank or absent too, its name is \<open>VM unknown\<close>. Such
  records are neither rejected nor merged into one.
\<close>

theorem listVirtualMachines_missing_vmid:
  assumes "host c \<noteq> []" and "apiToken c \<noteq> []"
    and "url_new P (slashed_host c) = Some b"
    and "url_rel P (''api2/json/nodes/'' @ encodeURIComponent node @ ''/qemu'') b = Some uq"
    and "url_rel P (''api2/json/nodes/'' @ encodeURIComponent node @ ''/lxc'') b = Some ul"
    and "fst (requestJson P c (parse_vms P) uq GET None) = Inr dq"
    and "fst (requestJson P c (parse_vms P) ul GET None) = Inr dl"
  shows "\<exists>vms. fst (listVirtualMachines P c node) = Inr vms
           \<and> (\<forall>e \<in> set (data_or_empty dq). ve_vmid e = None \<longrightarrow>
                 mapVm P e Qemu node \<in> set vms \<and> vm_id (mapVm P e Qemu node) = - 1)
           \<and> (\<forall>e \<in> set (data_or_empty dl). ve_vmid e = None \<longrightarrow>
                 mapVm P e Lxc node \<in> set vms \<and> vm_id (mapVm P e Lxc node) = - 1)
           \<and> (\<forall>e t. ve_vmid e = None \<and> (case ve_name e of None \<Rightarrow> True | Some s \<Rightarrow> trim s = [])
                 \<longrightarrow> vm_name (mapVm P e t node) = ''VM unknown'')
           \<and> length (filter (\<lambda>e. ve_vmid e = None) (data_or_empty dq))
               + length (filter (\<lambda>e. ve_vmid e = None) (data_or_empty dl))
               \<le> length (filter (\<lambda>v. vm_id v = - 1) vms)"
proof -
  let ?qs = "map (\<lambda>vm. mapVm P vm Qemu node) (data_or_empty dq)"
  let ?ls = "map (\<lambda>vm. mapVm P vm Lxc node) (data_or_empty dl)"
  let ?vms = "array_sort compare_id (?qs @ ?ls)"
  have res: "fst (listVirtualMachines P c node) = Inr ?vms"
    by (rule listVirtualMachines_fulfilled [OF assms])
  have qemu: "mapVm P e Qemu node \<in> set ?vms" if "e \<in> set (data_or_empty dq)" for e
    using that by (simp add: set_array_sort_compare_id)
  have lxc: "mapVm P e Lxc node \<in> set ?vms" if "e \<in> set (data_or_empty dl)" for e
    using that by (simp add: set_array_sort_compare_id)
  have ids: "vm_id (mapVm P e t node) = - 1" if "ve_vmid e = None" for e t
    using that by (simp add: mapVm_def)
  have names: "vm_name (mapVm P e t node) = ''VM unknown''"
    if "ve_vmid e = None \<and> (case ve_name e of None \<Rightarrow> True | Some s \<Rightarrow> trim s = [])" for e t
    using that by (simp add: mapVm_def trimmed_or_def split: option.splits)
  have "filter (\<lambda>v. vm_id v = - 1) ?vms = filter (\<lambda>v. vm_id v = - 1) (?qs @ ?ls)"
    unfolding array_sort_compare_id by (rule sort_key_stable)
  then have "length (filter (\<lambda>v. vm_id v = - 1) ?vms)
               = length (filter (\<lambda>v. vm_id v = - 1) ?qs) + length (filter (\<lambda>v. vm_id v = - 1) ?ls)"
    by simp
  with count_unidentified [of "data_or_empty dq" P Qemu node]
    count_unidentified [of "data_or_empty dl" P Lxc node]
  have kept: "length (filter (\<lambda>e. ve_vmid e = None) (data_or_empty dq))
               + length (filter (\<lambda>e. ve_vmid e = None) (data_or_empty dl))
               \<le> length (filter (\<lambda>v. vm_id v = - 1) ?vms)"
    by linarith
  from res qemu lxc ids names kept show ?thesis
    by (intro exI [of _ ?vms] conjI) (simp, blast, blast, blast, simp)
qed

theorem listVirtualMachines_missing_vmid_witness:
  "\<exists>vms. fst (listVirtualMachines demo demo_client ''pve2'') = Inr vms
         \<and> \<lparr> vm_id = - 1, vm_name = ''VM unknown'', vm_status = UnknownVm, vm_type = Qemu,
              vm_node = ''pve2'' \<rparr> \<in> set vms
         \<and> \<lparr> vm_id = - 1, vm_name = ''VM unknown'', vm_status = Running, vm_type = Lxc,
              vm_node = ''pve2'' \<rparr> \<in> set vms
         \<and> 2 \<le> length (filter (\<lambda>v. vm_id v = - 1) vms)"
proof -
  let ?q = "\<lparr> ve_vmid = None, ve_name = Some ''  '', ve_status = None \<rparr>"
  let ?l = "\<lparr> ve_vmid = None, ve_name = None, ve_status = Some ''running'' \<rparr>"
  from listVirtualMachines_missing_vmid
    [OF demo_client_host demo_client_token demo_client_base demo_pve2_qemu_url
      demo_pve2_lxc_url demo_pve2_qemu demo_pve2_lxc]
  obtain vms where res: "fst (listVirtualMachines demo demo_client ''pve2'') = Inr vms"
    and qemu: "\<forall>e \<in> set (data_or_empty (Some pve2_qemu)). ve_vmid e = None \<longrightarrow>
                 mapVm demo e Qemu ''pve2'' \<in> set vms \<and> vm_id (mapVm demo e Qemu ''pve2'') = - 1"
    and lxc: "\<forall>e \<in> set (data_or_empty (Some pve2_lxc)). ve_vmid e = None \<longrightarrow>
                 mapVm demo e Lxc ''pve2'' \<in> set vms \<and> vm_id (mapVm demo e Lxc ''pve2'') = - 1"
    and kept: "length (filter (\<lambda>e. ve_vmid e = None) (data_or_empty (Some pve2_qemu)))
               + length (filter (\<lambda>e. ve_vmid e = None) (data_or_empty (Some pve2_lxc)))
               \<le> length (filter (\<lambda>v. vm_id v = - 1) vms)"
    by blast
  have "?q \<in> set (data_or_empty (Some pve2_qemu))"
    by (simp add: data_or_empty_def pve2_qemu_def)
  with qemu have "mapVm demo ?q Qemu ''pve2'' \<in> set vms" by fastforce
  moreover have "mapVm demo ?q Qemu ''pve2'' = \<lparr> vm_id = - 1, vm_name = ''VM unknown'',
      vm_status = UnknownVm, vm_type = Qemu, vm_node = ''pve2'' \<rparr>"
    by code_simp
  moreover have "?l \<in> set (data_or_empty (Some pve2_lxc))"
    by (simp add: data_or_empty_def pve2_lxc_def)
  with lxc have "mapVm demo ?l Lxc ''pve2'' \<in> set vms" by fastforce
  moreover have "mapVm demo ?l Lxc ''pve2'' = \<lparr> vm_id = - 1, vm_name = ''VM unknown'',
      vm_status = Running, vm_type = Lxc, vm_node = ''pve2'' \<rparr>"
    by code_simp
  moreover from kept have "2 \<le> length (filter (\<lambda>v. vm_id v = - 1) vms)"
    by (simp add: data_or_empty_def pve2_qemu_def pve2_lxc_def)
  ultimately show ?thesis using res by auto
qed

subsection \<open>Snapshots without a name\<close>

text \<open>
  C10: \<open>listSnapshots\<close> drops, without an error, every entry whose name is absent or
  empty, as it drops the entry named \<open>current\<close>; the records it returns are those of the
  other entries, in their order, and each has a non-empty name.
\<close>

theorem listSnapshots_drops_unnamed:
  assumes "url_new P (slashed_host c) = Some b"
    and "url_rel P (guest_path P node type vmId @ ''/snapshot'') b = Some u"
    and "fst (requestJson P c (parse_snapshots P) u GET None) = Inr d"
  shows "\<exists>snaps. fst (listSnapshots P c node type vmId) = Inr snaps
           \<and> snaps = map mapSnapshot
                 (filter (\<lambda>e. se_name e \<noteq> None \<and> se_name e \<noteq> Some [] \<and> se_name e \<noteq> Some ''current'')
                    (data_or_empty d))
           \<and> (\<forall>s \<in> set snaps. snap_name s \<noteq> [])"
proof -
  let ?snaps = "map mapSnapshot (filter keep_snapshot (data_or_empty d))"
  have res: "fst (listSnapshots P c node type vmId) = Inr ?snaps"
    by (rule listSnapshots_fulfilled [OF assms])
  have keep: "keep_snapshot = (\<lambda>e. se_name e \<noteq> None \<and> se_name e \<noteq> Some [] \<and> se_name e \<noteq> Some ''current'')"
    by (rule ext) (simp add: keep_snapshot_def truthy_def split: option.splits)
  have "snap_name (mapSnapshot e) \<noteq> []" if "keep_snapshot e" for e
    using that by (cases "se_name e") (simp_all add: keep_snapshot_def mapSnapshot_def truthy_def)
  then have named: "\<forall>s \<in> set ?snaps. snap_name s \<noteq> []"
    by auto
  from res named show ?thesis
    unfolding keep by blast
qed

theorem listSnapshots_drops_unnamed_witness:
  "fst (listSnapshots demo demo_client ''pve1'' Qemu 100) =
     Inr [\<lparr> snap_name = ''before-upgrade'', snap_createdAt = Some 1700000000 \<rparr>,
          \<lparr> snap_name = ''nightly'', snap_createdAt = None \<rparr>]"
  using listSnapshots_drops_unnamed [OF demo_client_base demo_snapshot_url demo_snapshots]
  by (auto simp add: data_or_empty_def mapSnapshot_def)

end
